theory Spec2Isabelle
  imports Complex_Main "HOL-Library.Word" "HOL-Library.AList"
begin

unbundle bit_operations_syntax

section \<open>Strings and bytes\<close>

text \<open>
  A Python \<open>str\<close> is modelled as a \<open>string\<close> whose characters are the code points
  0..255, so \<open>len\<close> is \<open>length\<close>. \<open>str.encode()\<close> is UTF-8: a code point below 128 is
  one byte, a code point from 128 to 255 is two.
\<close>

type_synonym byte = "8 word"
type_synonym w32 = "32 word"

definition encode :: "string \<Rightarrow> byte list" where
  "encode s = concat (map (\<lambda>c. let n = (of_char c :: nat) in
       if n < 128 then [of_nat n] else [of_nat (192 + n div 64), of_nat (128 + n mod 64)]) s)"

text \<open>Python truthiness of an optional string: \<open>not x\<close> holds for \<open>None\<close> and for \<open>""\<close>.\<close>

definition falsy :: "string option \<Rightarrow> bool" where
  "falsy x = (case x of None \<Rightarrow> True | Some s \<Rightarrow> s = [])"

section \<open>hashlib.sha256 (FIPS 180-4)\<close>

definition K256 :: "w32 list" where
  "K256 =
     0x428a2f98 # 0x71374491 # 0xb5c0fbcf # 0xe9b5dba5 # 0x3956c25b # 0x59f111f1 #
     0x923f82a4 # 0xab1c5ed5 # 0xd807aa98 # 0x12835b01 # 0x243185be # 0x550c7dc3 #
     0x72be5d74 # 0x80deb1fe # 0x9bdc06a7 # 0xc19bf174 # 0xe49b69c1 # 0xefbe4786 #
     0x0fc19dc6 # 0x240ca1cc # 0x2de92c6f # 0x4a7484aa # 0x5cb0a9dc # 0x76f988da #
     0x983e5152 # 0xa831c66d # 0xb00327c8 # 0xbf597fc7 # 0xc6e00bf3 # 0xd5a79147 #
     0x06ca6351 # 0x14292967 # 0x27b70a85 # 0x2e1b2138 # 0x4d2c6dfc # 0x53380d13 #
     0x650a7354 # 0x766a0abb # 0x81c2c92e # 0x92722c85 # 0xa2bfe8a1 # 0xa81a664b #
     0xc24b8b70 # 0xc76c51a3 # 0xd192e819 # 0xd6990624 # 0xf40e3585 # 0x106aa070 #
     0x19a4c116 # 0x1e376c08 # 0x2748774c # 0x34b0bcb5 # 0x391c0cb3 # 0x4ed8aa4a #
     0x5b9cca4f # 0x682e6ff3 # 0x748f82ee # 0x78a5636f # 0x84c87814 # 0x8cc70208 #
     0x90befffa # 0xa4506ceb # 0xbef9a3f7 # 0xc67178f2 #
     []"

definition H0 :: "w32 list" where
  "H0 =
     0x6a09e667 # 0xbb67ae85 # 0x3c6ef372 # 0xa54ff53a #
     0x510e527f # 0x9b05688c # 0x1f83d9ab # 0x5be0cd19 #
     []"

definition rotr :: "nat \<Rightarrow> w32 \<Rightarrow> w32" where
  "rotr n x = drop_bit n x OR push_bit (32 - n) x"

definition ssig0 :: "w32 \<Rightarrow> w32" where
  "ssig0 x = rotr 7 x XOR rotr 18 x XOR drop_bit 3 x"

definition ssig1 :: "w32 \<Rightarrow> w32" where
  "ssig1 x = rotr 17 x XOR rotr 19 x XOR drop_bit 10 x"

definition bsig0 :: "w32 \<Rightarrow> w32" where
  "bsig0 x = rotr 2 x XOR rotr 13 x XOR rotr 22 x"

definition bsig1 :: "w32 \<Rightarrow> w32" where
  "bsig1 x = rotr 6 x XOR rotr 11 x XOR rotr 25 x"

definition ch :: "w32 \<Rightarrow> w32 \<Rightarrow> w32 \<Rightarrow> w32" where
  "ch x y z = (x AND y) XOR (NOT x AND z)"

definition maj :: "w32 \<Rightarrow> w32 \<Rightarrow> w32 \<Rightarrow> w32" where
  "maj x y z = (x AND y) XOR (x AND z) XOR (y AND z)"

text \<open>The message schedule; \<open>ws\<close> holds the sixteen latest words, newest first.\<close>

fun schedule :: "nat \<Rightarrow> w32 list \<Rightarrow> w32 list" where
  "schedule 0 ws = []"
| "schedule (Suc n) ws =
     (let w = ssig1 (ws ! 1) + ws ! 6 + ssig0 (ws ! 14) + ws ! 15
      in w # schedule n (w # take 15 ws))"

fun round256 :: "w32 list \<Rightarrow> w32 \<times> w32 \<Rightarrow> w32 list" where
  "round256 [a, b, c, d, e, f, g, h] (k, w) =
     (let t1 = h + bsig1 e + ch e f g + k + w;
          t2 = bsig0 a + maj a b c
      in [t1 + t2, a, b, c, d + t1, e, f, g])"
| "round256 s _ = s"

definition compress :: "w32 list \<Rightarrow> w32 list \<Rightarrow> w32 list" where
  "compress hs m =
     (let ws = m @ schedule 48 (rev m)
      in map2 (+) hs (foldl round256 hs (zip K256 ws)))"

definition be32 :: "byte list \<Rightarrow> w32" where
  "be32 bs = foldl (\<lambda>acc b. push_bit 8 acc OR ucast b) 0 bs"

fun chunks :: "nat \<Rightarrow> byte list \<Rightarrow> byte list list" where
  "chunks 0 xs = []"
| "chunks (Suc n) xs = take 4 xs # chunks n (drop 4 xs)"

fun blocks :: "nat \<Rightarrow> byte list \<Rightarrow> w32 list list" where
  "blocks 0 bs = []"
| "blocks (Suc n) bs = map be32 (chunks 16 (take 64 bs)) # blocks n (drop 64 bs)"

definition pad :: "byte list \<Rightarrow> byte list" where
  "pad m =
     (let l = length m;
          z = (119 - l mod 64) mod 64;
          len = (word_of_nat (8 * l) :: 64 word)
      in m @ [0x80] @ replicate z 0 @ map (\<lambda>i. ucast (drop_bit (8 * (7 - i)) len)) [0..<8])"

definition w32_bytes :: "w32 \<Rightarrow> byte list" where
  "w32_bytes w = map (\<lambda>i. ucast (drop_bit (8 * (3 - i)) w)) [0..<4]"

definition sha256 :: "byte list \<Rightarrow> byte list" where
  "sha256 m =
     (let p = pad m
      in concat (map w32_bytes (foldl compress H0 (blocks (length p div 64) p))))"

section \<open>base64.urlsafe\_b64encode (RFC 4648, section 5)\<close>

definition b64_alphabet :: string where
  "b64_alphabet = ''ABCDEFGHIJKLMNOPQRSTUVWXYZabcdefghijklmnopqrstuvwxyz0123456789-_''"

definition b64c :: "nat \<Rightarrow> char" where
  "b64c i = b64_alphabet ! (i mod 64)"

fun urlsafe_b64encode :: "byte list \<Rightarrow> string" where
  "urlsafe_b64encode (a # b # c # rest) =
     (let n = unat a * 65536 + unat b * 256 + unat c
      in b64c (n div 262144) # b64c (n div 4096) # b64c (n div 64) # b64c n
           # urlsafe_b64encode rest)"
| "urlsafe_b64encode [a, b] =
     (let n = unat a * 65536 + unat b * 256
      in [b64c (n div 262144), b64c (n div 4096), b64c (n div 64), CHR ''='']) "
| "urlsafe_b64encode [a] =
     (let n = unat a * 65536
      in [b64c (n div 262144), b64c (n div 4096), CHR ''='', CHR ''=''])"
| "urlsafe_b64encode [] = []"

text \<open>\<open>s.rstrip("=")\<close>\<close>

definition rstrip_eq :: "string \<Rightarrow> string" where
  "rstrip_eq s = rev (dropWhile (\<lambda>c. c = CHR ''='') (rev s))"

section \<open>PKCE\<close>

text \<open>\<open>verify_pkce_challenge\<close> of \<open>oauth_endpoints.py\<close>.\<close>

definition verify_pkce_challenge :: "string \<Rightarrow> string \<Rightarrow> bool" where
  "verify_pkce_challenge code_verifier code_challenge =
     (let verifier_hash = sha256 (encode code_verifier);
          computed_challenge = rstrip_eq (urlsafe_b64encode verifier_hash)
      in computed_challenge = code_challenge)"

section \<open>Token codec\<close>

text \<open>
  The JWT payload is a dictionary of claims. A bearer string either parses as a JWT, with a
  payload and a signature, or it does not (\<open>Opaque\<close>).
\<close>

datatype claim_value = Str string | Num int | StrList "string list"

type_synonym claims = "(string \<times> claim_value) list"

datatype token = JWT claims string | Opaque string

text \<open>
  What the process takes from its libraries and its environment. A library call that raises
  returns \<open>Inl\<close> with the exception's text.
  \<^item> \<open>hs256 key payload\<close>: the HS256 signature PyJWT computes in \<open>jwt.encode\<close>;
  \<^item> \<open>fernet_encrypt key plaintext\<close>, \<open>fernet_decrypt key ciphertext\<close>: \<open>cryptography.fernet\<close>;
  \<^item> \<open>urlparse uri\<close>: the scheme and the netloc of \<open>urllib.parse.urlparse\<close>;
  \<^item> \<open>jwt_secret_key\<close>: the value \<open>get_jwt_secret_key\<close> returns for the life of the process;
  \<^item> \<open>deapi_api_base_url\<close>: the setting of that name.
\<close>

record env =
  hs256 :: "string \<Rightarrow> claims \<Rightarrow> string + string"
  fernet_encrypt :: "string \<Rightarrow> string \<Rightarrow> string + string"
  fernet_decrypt :: "string \<Rightarrow> string \<Rightarrow> string + string"
  urlparse :: "string \<Rightarrow> string + (string \<times> string)"
  jwt_secret_key :: string
  deapi_api_base_url :: string

definition DEFAULT_CLIENT_ID :: string where
  "DEFAULT_CLIENT_ID = ''deapi-mcp''"

definition JWT_EXPIRATION_SECONDS :: int where
  "JWT_EXPIRATION_SECONDS = 3600"

definition REFRESH_TOKEN_EXPIRATION_SECONDS :: int where
  "REFRESH_TOKEN_EXPIRATION_SECONDS = 2592000"

definition AUTHORIZATION_CODE_EXPIRATION_SECONDS :: int where
  "AUTHORIZATION_CODE_EXPIRATION_SECONDS = 600"

definition AUTHORIZATION_CODE_MAX_ENTRIES :: nat where
  "AUTHORIZATION_CODE_MAX_ENTRIES = 1000"

definition ALLOWED_REDIRECT_SCHEMES :: "string list" where
  "ALLOWED_REDIRECT_SCHEMES = [''http'', ''https'']"

text \<open>Python's \<open>int(x)\<close> on a float truncates towards zero.\<close>

definition py_int :: "real \<Rightarrow> int" where
  "py_int x = (if 0 \<le> x then \<lfloor>x\<rfloor> else \<lceil>x\<rceil>)"

text \<open>\<open>_get_fernet\<close>: the Fernet key is the base64url text of the SHA-256 of the secret.\<close>

definition get_fernet_key :: "env \<Rightarrow> string" where
  "get_fernet_key ev = urlsafe_b64encode (sha256 (encode (jwt_secret_key ev)))"

definition encrypt_token :: "env \<Rightarrow> string \<Rightarrow> string + string" where
  "encrypt_token ev tok = fernet_encrypt ev (get_fernet_key ev) tok"

definition decrypt_token :: "env \<Rightarrow> string \<Rightarrow> string + string" where
  "decrypt_token ev encrypted_token = fernet_decrypt ev (get_fernet_key ev) encrypted_token"

text \<open>\<open>jwt.encode(payload, key, algorithm="HS256")\<close>\<close>

definition jwt_encode :: "env \<Rightarrow> claims \<Rightarrow> string \<Rightarrow> string + token" where
  "jwt_encode ev payload key =
     (case hs256 ev key payload of Inl e \<Rightarrow> Inl e | Inr sg \<Rightarrow> Inr (JWT payload sg))"

text \<open>
  \<open>jwt.decode(token, key, algorithms=["HS256"], audience=audience)\<close>, with \<open>None\<close> for every
  \<open>InvalidTokenError\<close>: a string that is no JWT, a signature that is not the key's signature
  of the payload, an \<open>exp\<close> claim that is no integer or not after the current time, a missing
  or empty \<open>aud\<close> claim, and an \<open>aud\<close> claim (a string, or a list of strings) that does not
  hold the expected audience.
\<close>

definition exp_valid :: "real \<Rightarrow> claims \<Rightarrow> bool" where
  "exp_valid now payload =
     (case map_of payload ''exp'' of
        None \<Rightarrow> True
      | Some (Num e) \<Rightarrow> now < real_of_int e
      | Some _ \<Rightarrow> False)"

definition aud_valid :: "claims \<Rightarrow> string \<Rightarrow> bool" where
  "aud_valid payload audience =
     (case map_of payload ''aud'' of
        Some (Str a) \<Rightarrow> a \<noteq> [] \<and> audience = a
      | Some (StrList as) \<Rightarrow> audience \<in> set as
      | _ \<Rightarrow> False)"

definition jwt_decode :: "env \<Rightarrow> real \<Rightarrow> token \<Rightarrow> string \<Rightarrow> string \<Rightarrow> claims option" where
  "jwt_decode ev now tok key audience =
     (case tok of
        Opaque _ \<Rightarrow> None
      | JWT payload sg \<Rightarrow>
          if hs256 ev key payload \<noteq> Inr sg then None
          else if \<not> exp_valid now payload then None
          else if \<not> aud_valid payload audience then None
          else Some payload)"

text \<open>\<open>create_jwt\<close>; \<open>now\<close> is the time \<open>datetime.now(timezone.utc)\<close> reads, in seconds.\<close>

definition create_jwt :: "env \<Rightarrow> real \<Rightarrow> string \<Rightarrow> string \<Rightarrow> string + token" where
  "create_jwt ev now deapi_token client_id =
     (let expiration = now + real_of_int JWT_EXPIRATION_SECONDS
      in case encrypt_token ev deapi_token of
           Inl e \<Rightarrow> Inl e
         | Inr enc \<Rightarrow>
             jwt_encode ev
               [(''iss'', Str (deapi_api_base_url ev)),
                (''sub'', Str client_id),
                (''aud'', Str ''deapi-mcp-api''),
                (''exp'', Num (py_int expiration)),
                (''iat'', Num (py_int now)),
                (''deapi_token_enc'', Str enc)]
               (jwt_secret_key ev))"

text \<open>\<open>decode_jwt\<close>\<close>

definition decode_jwt :: "env \<Rightarrow> real \<Rightarrow> token \<Rightarrow> claims option" where
  "decode_jwt ev now tok = jwt_decode ev now tok (jwt_secret_key ev) ''deapi-mcp-api''"

text \<open>\<open>create_refresh_token\<close>\<close>

definition create_refresh_token :: "env \<Rightarrow> real \<Rightarrow> string \<Rightarrow> string \<Rightarrow> string + token" where
  "create_refresh_token ev now deapi_token client_id =
     (let expiration = now + real_of_int REFRESH_TOKEN_EXPIRATION_SECONDS
      in case encrypt_token ev deapi_token of
           Inl e \<Rightarrow> Inl e
         | Inr enc \<Rightarrow>
             jwt_encode ev
               [(''iss'', Str (deapi_api_base_url ev)),
                (''sub'', Str client_id),
                (''aud'', Str ''deapi-mcp-refresh''),
                (''exp'', Num (py_int expiration)),
                (''iat'', Num (py_int now)),
                (''deapi_token_enc'', Str enc),
                (''token_type'', Str ''refresh'')]
               (jwt_secret_key ev))"

text \<open>\<open>decode_refresh_token\<close>\<close>

definition decode_refresh_token :: "env \<Rightarrow> real \<Rightarrow> token \<Rightarrow> claims option" where
  "decode_refresh_token ev now tok =
     (case jwt_decode ev now tok (jwt_secret_key ev) ''deapi-mcp-refresh'' of
        None \<Rightarrow> None
      | Some payload \<Rightarrow>
          if map_of payload ''token_type'' \<noteq> Some (Str ''refresh'') then None
          else Some payload)"

section \<open>Authorization code store\<close>

text \<open>
  \<open>_authorization_codes\<close>: a dictionary from code to the pending request, kept in insertion
  order. The keys of a dictionary are distinct, and \<open>len\<close> is then \<open>length\<close>.
\<close>

record auth_data =
  client_id :: string
  redirect_uri :: string
  code_challenge :: string
  expires_at :: real
  state :: "string option"

type_synonym store = "(string \<times> auth_data) list"

text \<open>\<open>_prune_expired_authorization_codes\<close>; \<open>now\<close> is the time \<open>time.time()\<close> reads.\<close>

definition prune_expired_authorization_codes :: "real \<Rightarrow> store \<Rightarrow> store" where
  "prune_expired_authorization_codes now codes =
     filter (\<lambda>(code, data). \<not> now > expires_at data) codes"

section \<open>HTTP responses\<close>

text \<open>
  \<open>JSONError e d s\<close> is the JSON body \<open>{"error": e, "error_description": d}\<close> with status
  \<open>s\<close>; \<open>TokenResponse\<close> is the JSON body of a token pair, with status 200;
  \<open>RedirectResponse u ps\<close> redirects to \<open>u\<close>, a question mark and \<open>urlencode(ps)\<close>.
\<close>

datatype response =
    JSONError string "string option" nat
  | TokenResponse token string int token
  | RedirectResponse string "(string \<times> string) list"

section \<open>Token endpoint\<close>

text \<open>The form fields of \<open>POST /token\<close>; a field that is absent is \<open>None\<close>.\<close>

record token_form =
  f_grant_type :: "string option"
  f_client_id :: "string option"
  f_client_secret :: "string option"
  f_code :: "string option"
  f_code_verifier :: "string option"
  f_redirect_uri :: "string option"
  f_refresh_token :: "token option"

text \<open>
  The two \<open>try\<close> blocks that create the token pair, with the same \<open>except\<close> arm
  (\<open>server_error\<close>, 500) and the same success response.
\<close>

definition issue_tokens :: "env \<Rightarrow> real \<Rightarrow> string \<Rightarrow> string \<Rightarrow> response" where
  "issue_tokens ev now deapi_token cid =
     (case create_jwt ev now deapi_token cid of
        Inl e \<Rightarrow> JSONError ''server_error'' (Some (''Failed to create tokens: '' @ e)) 500
      | Inr access_token \<Rightarrow>
          (case create_refresh_token ev now deapi_token cid of
             Inl e \<Rightarrow> JSONError ''server_error'' (Some (''Failed to create tokens: '' @ e)) 500
           | Inr refresh_token \<Rightarrow>
               TokenResponse access_token ''Bearer'' JWT_EXPIRATION_SECONDS refresh_token))"

text \<open>
  The \<open>refresh_token\<close> grant. A payload that \<open>decode_refresh_token\<close> returns holds the
  \<open>token_type\<close> claim, so it is no empty dictionary. A \<open>deapi_token_enc\<close> claim that is
  missing, falsy or no string, and one that does not decrypt, are all answered alike.
\<close>

definition refresh_token_grant :: "env \<Rightarrow> real \<Rightarrow> token_form \<Rightarrow> string \<Rightarrow> response" where
  "refresh_token_grant ev now form cid =
     (case f_refresh_token form of
        None \<Rightarrow> JSONError ''invalid_request'' (Some ''refresh_token is required'') 400
      | Some refresh_token \<Rightarrow>
          if refresh_token = Opaque [] then
            JSONError ''invalid_request'' (Some ''refresh_token is required'') 400
          else
            (case decode_refresh_token ev now refresh_token of
               None \<Rightarrow>
                 JSONError ''invalid_grant'' (Some ''Invalid or expired refresh token'') 400
             | Some payload \<Rightarrow>
                 (case map_of payload ''deapi_token_enc'' of
                    Some (Str encrypted_token) \<Rightarrow>
                      if encrypted_token = [] then
                        JSONError ''invalid_grant'' (Some ''Invalid refresh token'') 400
                      else
                        (case decrypt_token ev encrypted_token of
                           Inl e \<Rightarrow>
                             JSONError ''invalid_grant'' (Some ''Invalid refresh token'') 400
                         | Inr deapi_token \<Rightarrow> issue_tokens ev now deapi_token cid)
                  | _ \<Rightarrow> JSONError ''invalid_grant'' (Some ''Invalid refresh token'') 400)))"

text \<open>The \<open>authorization_code\<close> grant; it reads and updates the code store.\<close>

definition authorization_code_grant ::
  "env \<Rightarrow> real \<Rightarrow> store \<Rightarrow> token_form \<Rightarrow> string \<Rightarrow> response \<times> store" where
  "authorization_code_grant ev now codes form cid =
     (case f_code form of
        None \<Rightarrow> (JSONError ''invalid_request'' (Some ''code is required'') 400, codes)
      | Some code \<Rightarrow>
          if code = [] then
            (JSONError ''invalid_request'' (Some ''code is required'') 400, codes)
          else
            (case map_of codes code of
               None \<Rightarrow>
                 (JSONError ''invalid_grant'' (Some ''Invalid authorization code'') 400, codes)
             | Some data \<Rightarrow>
                 if now > expires_at data then
                   (JSONError ''invalid_grant'' (Some ''Authorization code expired'') 400,
                    AList.delete code codes)
                 else if f_redirect_uri form \<noteq> Some (redirect_uri data) then
                   (JSONError ''invalid_grant'' (Some ''redirect_uri mismatch'') 400, codes)
                 else
                   (case f_code_verifier form of
                      None \<Rightarrow>
                        (JSONError ''invalid_request'' (Some ''code_verifier is required'') 400,
                         codes)
                    | Some code_verifier \<Rightarrow>
                        if code_verifier = [] then
                          (JSONError ''invalid_request'' (Some ''code_verifier is required'') 400,
                           codes)
                        else if \<not> verify_pkce_challenge code_verifier (code_challenge data) then
                          (JSONError ''invalid_grant'' (Some ''Invalid code_verifier'') 400, codes)
                        else
                          (case f_client_secret form of
                             None \<Rightarrow>
                               (JSONError ''invalid_client''
                                  (Some ''Invalid client_secret (Deapi token)'') 401,
                                AList.delete code codes)
                           | Some client_secret \<Rightarrow>
                               if client_secret = [] \<or> length client_secret < 10 then
                                 (JSONError ''invalid_client''
                                    (Some ''Invalid client_secret (Deapi token)'') 401,
                                  AList.delete code codes)
                               else
                                 (issue_tokens ev now client_secret cid,
                                  AList.delete code codes)))))"

text \<open>The \<open>client_credentials\<close> grant.\<close>

definition client_credentials_grant :: "env \<Rightarrow> real \<Rightarrow> token_form \<Rightarrow> string \<Rightarrow> response" where
  "client_credentials_grant ev now form cid =
     (case f_client_secret form of
        None \<Rightarrow>
          JSONError ''invalid_client''
            (Some ''client_secret is required (your Deapi API token)'') 401
      | Some client_secret \<Rightarrow>
          if client_secret = [] then
            JSONError ''invalid_client''
              (Some ''client_secret is required (your Deapi API token)'') 401
          else if length client_secret < 10 then
            JSONError ''invalid_client''
              (Some ''client_secret appears invalid (Deapi API token expected)'') 401
          else issue_tokens ev now client_secret cid)"

text \<open>
  \<open>token_endpoint\<close>: the response and the code store after the request. \<open>now\<close> is the time
  the request reads from the clock.
\<close>

definition token_endpoint :: "env \<Rightarrow> real \<Rightarrow> store \<Rightarrow> token_form \<Rightarrow> response \<times> store" where
  "token_endpoint ev now codes form =
     (if f_grant_type form \<notin>
           set [Some ''authorization_code'', Some ''client_credentials'', Some ''refresh_token'']
      then
        (JSONError ''unsupported_grant_type''
           (Some ''Supported grant types: authorization_code, client_credentials, refresh_token'')
           400,
         codes)
      else if falsy (f_client_id form) \<or> f_client_id form \<noteq> Some DEFAULT_CLIENT_ID then
        (JSONError ''invalid_client''
           (Some (''Invalid client_id. Use '' @ [CHR 0x27] @ DEFAULT_CLIENT_ID @ [CHR 0x27])) 401,
         codes)
      else if f_grant_type form = Some ''refresh_token'' then
        (refresh_token_grant ev now form DEFAULT_CLIENT_ID, codes)
      else if f_grant_type form = Some ''authorization_code'' then
        authorization_code_grant ev now codes form DEFAULT_CLIENT_ID
      else
        (client_credentials_grant ev now form DEFAULT_CLIENT_ID, codes))"

section \<open>Authorization endpoint\<close>

text \<open>The query parameters of \<open>GET /authorize\<close>.\<close>

record authorize_query =
  q_client_id :: "string option"
  q_redirect_uri :: "string option"
  q_state :: "string option"
  q_code_challenge :: "string option"
  q_code_challenge_method :: "string option"
  q_response_type :: "string option"

text \<open>\<open>str.lower()\<close> on the code points 0..255.\<close>

definition lower_char :: "char \<Rightarrow> char" where
  "lower_char c =
     (let n = (of_char c :: nat)
      in if (65 \<le> n \<and> n \<le> 90) \<or> (192 \<le> n \<and> n \<le> 222 \<and> n \<noteq> 215)
         then char_of (n + 32) else c)"

definition lower :: "string \<Rightarrow> string" where
  "lower s = map lower_char s"

text \<open>\<open>_validate_redirect_uri\<close>\<close>

definition validate_redirect_uri :: "env \<Rightarrow> string \<Rightarrow> bool" where
  "validate_redirect_uri ev uri =
     (case urlparse ev uri of
        Inl e \<Rightarrow> False
      | Inr (scheme, netloc) \<Rightarrow>
          lower scheme \<in> set ALLOWED_REDIRECT_SCHEMES \<and> netloc \<noteq> [])"

text \<open>
  The error redirects of \<open>authorize_endpoint\<close>: the parameters \<open>error\<close> and
  \<open>error_description\<close>, and \<open>state\<close> when the request has a truthy one.
\<close>

definition state_param :: "string option \<Rightarrow> (string \<times> string) list" where
  "state_param st = (case st of None \<Rightarrow> [] | Some s \<Rightarrow> if s = [] then [] else [(''state'', s)])"

definition error_redirect :: "string \<Rightarrow> string \<Rightarrow> string \<Rightarrow> string option \<Rightarrow> response" where
  "error_redirect uri err description st =
     RedirectResponse uri ([(''error'', err), (''error_description'', description)] @ state_param st)"

text \<open>
  \<open>authorize_endpoint\<close>: the response and the code store after the request. \<open>auth_code\<close> is
  the value \<open>secrets.token_urlsafe(32)\<close> returns to this request and \<open>now\<close> the time it reads
  from the clock.
\<close>

definition authorize_endpoint ::
  "env \<Rightarrow> string \<Rightarrow> real \<Rightarrow> store \<Rightarrow> authorize_query \<Rightarrow> response \<times> store" where
  "authorize_endpoint ev auth_code now codes q =
     (if falsy (q_client_id q) \<or> q_client_id q \<noteq> Some DEFAULT_CLIENT_ID then
        (case q_redirect_uri q of
           None \<Rightarrow> (JSONError ''unauthorized_client'' None 401, codes)
         | Some uri \<Rightarrow>
             if uri = [] then (JSONError ''unauthorized_client'' None 401, codes)
             else (error_redirect uri ''unauthorized_client'' ''Invalid client_id'' (q_state q),
                   codes))
      else
        (case q_redirect_uri q of
           None \<Rightarrow>
             (JSONError ''invalid_request'' (Some ''redirect_uri is required'') 400, codes)
         | Some uri \<Rightarrow>
             if uri = [] then
               (JSONError ''invalid_request'' (Some ''redirect_uri is required'') 400, codes)
             else if \<not> validate_redirect_uri ev uri then
               (JSONError ''invalid_request''
                  (Some ''redirect_uri must use http or https scheme'') 400,
                codes)
             else if q_response_type q \<noteq> Some ''code'' then
               (error_redirect uri ''unsupported_response_type''
                  (''Only '' @ [CHR 0x27] @ ''code'' @ [CHR 0x27] @ '' response_type is supported'')
                  (q_state q),
                codes)
             else
               (case q_code_challenge q of
                  None \<Rightarrow>
                    (error_redirect uri ''invalid_request'' ''PKCE with S256 is required''
                       (q_state q),
                     codes)
                | Some challenge \<Rightarrow>
                    if challenge = [] \<or> q_code_challenge_method q \<noteq> Some ''S256'' then
                      (error_redirect uri ''invalid_request'' ''PKCE with S256 is required''
                         (q_state q),
                       codes)
                    else
                      (let pruned = prune_expired_authorization_codes now codes
                       in if length pruned \<ge> AUTHORIZATION_CODE_MAX_ENTRIES then
                            (error_redirect uri ''server_error''
                               ''Server is busy, please try again later'' (q_state q),
                             pruned)
                          else
                            (RedirectResponse uri ([(''code'', auth_code)] @ state_param (q_state q)),
                             AList.update auth_code
                               \<lparr>client_id = DEFAULT_CLIENT_ID,
                                redirect_uri = uri,
                                code_challenge = challenge,
                                expires_at = now + real_of_int AUTHORIZATION_CODE_EXPIRATION_SECONDS,
                                state = q_state q\<rparr>
                               pruned)))))"

section \<open>Polling configuration\<close>

text \<open>Seconds are real numbers; the rounding of Python's floats is not modelled.\<close>

record PollingConfig =
  initial_delay :: real
  max_delay :: real
  timeout :: real
  backoff_factor :: real

text \<open>The polling fields of \<open>Settings\<close>, and their defaults.\<close>

record Settings =
  polling_audio :: PollingConfig
  polling_image :: PollingConfig
  polling_video :: PollingConfig
  polling_embedding :: PollingConfig
  polling_default :: PollingConfig

definition settings :: Settings where
  "settings =
     \<lparr>polling_audio =
        \<lparr>initial_delay = 1, max_delay = 5, timeout = 300, backoff_factor = 3 / 2\<rparr>,
      polling_image =
        \<lparr>initial_delay = 2, max_delay = 8, timeout = 300, backoff_factor = 3 / 2\<rparr>,
      polling_video =
        \<lparr>initial_delay = 5, max_delay = 30, timeout = 900, backoff_factor = 3 / 2\<rparr>,
      polling_embedding =
        \<lparr>initial_delay = 1 / 2, max_delay = 3, timeout = 120, backoff_factor = 3 / 2\<rparr>,
      polling_default =
        \<lparr>initial_delay = 2, max_delay = 10, timeout = 300, backoff_factor = 3 / 2\<rparr>\<rparr>"

text \<open>\<open>sub in s\<close> on strings.\<close>

fun contains :: "string \<Rightarrow> string \<Rightarrow> bool" where
  "contains sub [] = (sub = [])"
| "contains sub (c # cs) = (take (length sub) (c # cs) = sub \<or> contains sub cs)"

text \<open>\<open>Settings.get_polling_config\<close>\<close>

definition get_polling_config :: "Settings \<Rightarrow> string \<Rightarrow> PollingConfig" where
  "get_polling_config st job_type =
     (let job_type_lower = lower job_type
      in if contains ''audio'' job_type_lower \<or> contains ''speech'' job_type_lower then
           polling_audio st
         else if contains ''image'' job_type_lower \<or> contains ''img'' job_type_lower then
           polling_image st
         else if contains ''video'' job_type_lower then polling_video st
         else if contains ''embedding'' job_type_lower then polling_embedding st
         else polling_default st)"

section \<open>Polling manager\<close>

datatype JobStatus = PENDING | PROCESSING | DONE | FAILED

record JobStatusData =
  d_status :: JobStatus
  d_preview :: "string option"
  d_result_url :: "string option"
  d_result :: "string option"
  d_progress :: "real option"

text \<open>
  The texts the manager formats, each with the values its f-string holds: a message stands
  for the formatted string.
\<close>

datatype message =
    Text string
  | JobSubmitted string string
  | JobTimedOut string real real
  | JobStatusLine string JobStatus real nat
  | JobCompleted string real
  | JobFailed string
  | StatusCheckError string string
  | Retrying nat
  | OperationStarting string string real
  | OperationCompleted string
  | OperationFailed string "message option"
  | OperationTimedOut string message
  | OperationUnexpected string string

record metadata =
  elapsed_time :: real
  attempts :: nat

record ToolResult =
  success :: bool
  job_id :: "string option"
  status :: "JobStatus option"
  result :: "string option"
  result_url :: "string option"
  error :: "message option"
  metadata :: "metadata option"

text \<open>What the manager tells the MCP context \<open>ctx\<close>, when one is supplied.\<close>

datatype ctx_event = Info message | Error message | ReportProgress real real

text \<open>
  What one call of \<open>client.get_job_status\<close> does: it returns the status data, or raises a
  \<open>DeapiAPIError\<close> with its text and status code, or raises another exception.
\<close>

datatype check_outcome =
    Returns JobStatusData
  | RaisesDeapiAPIError string "int option"
  | RaisesOther string

text \<open>
  The surroundings of one polling session: \<open>get_job_status w n\<close> is what the \<open>n\<close>-th status
  check of the session does, and \<open>clock w n\<close> is \<open>time.time() - start_time\<close> as the \<open>n\<close>-th
  iteration of the loop reads it.
\<close>

record world =
  get_job_status :: "nat \<Rightarrow> check_outcome"
  clock :: "nat \<Rightarrow> real"

text \<open>
  The local variables of \<open>poll_until_complete\<close>, with a record of what the session has done:
  the number of status checks made, the delays slept and the events told to \<open>ctx\<close>, oldest
  first.
\<close>

record session =
  attempt :: nat
  current_delay :: real
  last_progress :: "real option"
  checks :: nat
  sleeps :: "real list"
  events :: "ctx_event list"

datatype exn = PollingTimeoutError message | OtherException string

record PollingManager =
  job_type :: string
  config :: PollingConfig

text \<open>\<open>PollingManager.__init__\<close>\<close>

definition PollingManager_init :: "Settings \<Rightarrow> string \<Rightarrow> PollingManager" where
  "PollingManager_init st jt = \<lparr>job_type = jt, config = get_polling_config st jt\<rparr>"

text \<open>\<open>PollingManager._calculate_next_delay\<close>\<close>

definition calculate_next_delay :: "PollingManager \<Rightarrow> real \<Rightarrow> nat \<Rightarrow> real" where
  "calculate_next_delay self delay n =
     (let next_delay = delay * backoff_factor (config self)
      in min next_delay (max_delay (config self)))"

text \<open>\<open>await ctx.info(...)\<close> and the like: nothing happens without a \<open>ctx\<close>.\<close>

definition tell :: "bool \<Rightarrow> ctx_event \<Rightarrow> session \<Rightarrow> session" where
  "tell ctx e s = (if ctx then s\<lparr>events := events s @ [e]\<rparr> else s)"

text \<open>\<open>await asyncio.sleep(current_delay)\<close> and the assignment after it.\<close>

definition sleep_and_back_off :: "PollingManager \<Rightarrow> session \<Rightarrow> session" where
  "sleep_and_back_off self s =
     s\<lparr>sleeps := sleeps s @ [current_delay s],
       current_delay := calculate_next_delay self (current_delay s) (attempt s)\<rparr>"

text \<open>The progress report of one iteration.\<close>

definition report_progress :: "bool \<Rightarrow> JobStatusData \<Rightarrow> session \<Rightarrow> session" where
  "report_progress ctx status_data s =
     (case d_progress status_data of
        None \<Rightarrow> s
      | Some p \<Rightarrow>
          if ctx \<and> last_progress s \<noteq> Some p
          then (tell ctx (ReportProgress p 100) s)\<lparr>last_progress := Some p\<rparr>
          else s)"

text \<open>
  One iteration of the \<open>while True\<close> loop of \<open>poll_until_complete\<close>: \<open>Inl\<close> when the
  function leaves the loop, with the exception it raises or the result it returns, and
  \<open>Inr\<close> when the loop goes round again.
\<close>

definition poll_step ::
  "PollingManager \<Rightarrow> world \<Rightarrow> string \<Rightarrow> bool \<Rightarrow> session
     \<Rightarrow> ((exn + ToolResult) \<times> session) + session" where
  "poll_step self w jid ctx s0 =
     (let s = s0\<lparr>attempt := attempt s0 + 1\<rparr>;
          elapsed = clock w (attempt s)
      in if elapsed > timeout (config self) then
           (let error_msg = JobTimedOut jid elapsed (timeout (config self))
            in Inl (Inl (PollingTimeoutError error_msg), tell ctx (Error error_msg) s))
         else
           (let s1 = s\<lparr>checks := checks s + 1\<rparr>
            in case get_job_status w (checks s1) of
                 Returns status_data \<Rightarrow>
                   (let current_status = d_status status_data;
                        s2 = report_progress ctx status_data s1;
                        s3 = (if attempt s mod 5 = 0
                              then tell ctx
                                     (Info (JobStatusLine jid current_status elapsed (attempt s))) s2
                              else s2)
                    in if current_status = DONE then
                         Inl (Inr \<lparr>success = True, job_id = Some jid,
                                   status = Some current_status,
                                   result = d_result status_data,
                                   result_url = d_result_url status_data,
                                   error = None,
                                   metadata = Some \<lparr>elapsed_time = elapsed,
                                                    attempts = attempt s\<rparr>\<rparr>,
                              tell ctx (Info (JobCompleted jid elapsed)) s3)
                       else if current_status = FAILED then
                         Inl (Inr \<lparr>success = False, job_id = Some jid,
                                   status = Some current_status,
                                   result = None, result_url = None,
                                   error = Some (JobFailed jid),
                                   metadata = Some \<lparr>elapsed_time = elapsed,
                                                    attempts = attempt s\<rparr>\<rparr>,
                              tell ctx (Error (JobFailed jid)) s3)
                       else Inr (sleep_and_back_off self s3))
               | RaisesDeapiAPIError e status_code \<Rightarrow>
                   (let s2 = tell ctx (Error (StatusCheckError jid e)) s1
                    in if status_code = Some 404 then
                         Inl (Inr \<lparr>success = False, job_id = Some jid, status = None,
                                   result = None, result_url = None,
                                   error = Some (Text ''Job not found''),
                                   metadata = Some \<lparr>elapsed_time = elapsed,
                                                    attempts = attempt s\<rparr>\<rparr>,
                              s2)
                       else if attempt s < 3 then
                         Inr (sleep_and_back_off self
                                (tell ctx (Info (Retrying (attempt s + 1))) s2))
                       else
                         Inl (Inr \<lparr>success = False, job_id = Some jid, status = None,
                                   result = None, result_url = None,
                                   error = Some (Text e),
                                   metadata = Some \<lparr>elapsed_time = elapsed,
                                                    attempts = attempt s\<rparr>\<rparr>,
                              s2))
               | RaisesOther e \<Rightarrow> Inl (Inl (OtherException e), s1)))"

text \<open>The loop: \<open>None\<close> when it runs for ever.\<close>

partial_function (option) poll_loop ::
  "PollingManager \<Rightarrow> world \<Rightarrow> string \<Rightarrow> bool \<Rightarrow> session
     \<Rightarrow> ((exn + ToolResult) \<times> session) option" where
  "poll_loop self w jid ctx s =
     (case poll_step self w jid ctx s of
        Inl r \<Rightarrow> Some r
      | Inr s' \<Rightarrow> poll_loop self w jid ctx s')"

text \<open>\<open>PollingManager.poll_until_complete\<close>; \<open>told\<close> is what \<open>ctx\<close> has been told before.\<close>

definition poll_until_complete ::
  "PollingManager \<Rightarrow> world \<Rightarrow> string \<Rightarrow> bool \<Rightarrow> ctx_event list
     \<Rightarrow> ((exn + ToolResult) \<times> session) option" where
  "poll_until_complete self w jid ctx told =
     poll_loop self w jid ctx
       (tell ctx (Info (JobSubmitted jid (job_type self)))
          \<lparr>attempt = 0, current_delay = initial_delay (config self), last_progress = None,
           checks = 0, sleeps = [], events = told\<rparr>)"

text \<open>\<open>PollingManager.poll_with_context\<close>\<close>

definition poll_with_context ::
  "PollingManager \<Rightarrow> world \<Rightarrow> string \<Rightarrow> bool \<Rightarrow> string \<Rightarrow> (ToolResult \<times> session) option" where
  "poll_with_context self w jid ctx operation_name =
     (let told = (if ctx
                  then [Info (OperationStarting operation_name jid (timeout (config self) / 60))]
                  else [])
      in case poll_until_complete self w jid ctx told of
           None \<Rightarrow> None
         | Some (Inr res, s) \<Rightarrow>
             Some (res,
                   if success res then tell ctx (Info (OperationCompleted operation_name)) s
                   else tell ctx (Error (OperationFailed operation_name (error res))) s)
         | Some (Inl (PollingTimeoutError e), s) \<Rightarrow>
             Some (\<lparr>success = False, job_id = Some jid, status = None, result = None,
                    result_url = None, error = Some e, metadata = None\<rparr>,
                   tell ctx (Error (OperationTimedOut operation_name e)) s)
         | Some (Inl (OtherException e), s) \<Rightarrow>
             Some (\<lparr>success = False, job_id = Some jid, status = None, result = None,
                    result_url = None, error = Some (Text e), metadata = None\<rparr>,
                   tell ctx (Error (OperationUnexpected operation_name e)) s))"

text \<open>
  The checks \<open>authorize_endpoint\<close> makes of the parameters of a request, before it touches
  the code store.
\<close>

definition passes_parameter_checks :: "env \<Rightarrow> authorize_query \<Rightarrow> bool" where
  "passes_parameter_checks ev q =
     (q_client_id q = Some DEFAULT_CLIENT_ID \<and>
      (case q_redirect_uri q of
         None \<Rightarrow> False
       | Some uri \<Rightarrow> uri \<noteq> [] \<and> validate_redirect_uri ev uri) \<and>
      q_response_type q = Some ''code'' \<and>
      (case q_code_challenge q of None \<Rightarrow> False | Some challenge \<Rightarrow> challenge \<noteq> []) \<and>
      q_code_challenge_method q = Some ''S256'')"

section \<open>Reachable code stores\<close>

text \<open>
  The code store is empty when the process starts, and only the two endpoints change it, at
  any time, on any request and with any fresh code.
\<close>

inductive reachable :: "env \<Rightarrow> store \<Rightarrow> bool" for ev :: env where
  start: "reachable ev []"
| authorize: "reachable ev codes \<Longrightarrow> reachable ev (snd (authorize_endpoint ev auth_code now codes q))"
| token: "reachable ev codes \<Longrightarrow> reachable ev (snd (token_endpoint ev now codes form))"

text \<open>A token request succeeds when its response is the token pair.\<close>

definition succeeded :: "response \<Rightarrow> bool" where
  "succeeded r = (case r of TokenResponse a t e r \<Rightarrow> True | _ \<Rightarrow> False)"

section \<open>The backoff schedule in closed form\<close>


text \<open>The delay the loop holds after \<open>n\<close> rounds of sleeping and backing off from \<open>d\<close>.\<close>

fun delay_after :: "PollingManager \<Rightarrow> nat \<Rightarrow> real \<Rightarrow> real" where
  "delay_after self 0 d = d"
| "delay_after self (Suc n) d = min (delay_after self n d * backoff_factor (config self)) (max_delay (config self))"

text \<open>
  The \<open>k\<close>-th status check lets the loop go round again: it returns a status that is not
  terminal, or it is one of the first two and raises a \<open>DeapiAPIError\<close> other than a 404.
\<close>

definition goes_on :: "world \<Rightarrow> nat \<Rightarrow> bool" where
  "goes_on w k =
     (case get_job_status w k of
        Returns d \<Rightarrow> d_status d \<noteq> DONE \<and> d_status d \<noteq> FAILED
      | RaisesDeapiAPIError e c \<Rightarrow> c \<noteq> Some 404 \<and> k < 3
      | RaisesOther e \<Rightarrow> False)"


section \<open>Examples\<close>

text \<open>
  Surroundings for the examples: a signature and a ciphertext that show what they were made
  from, and \<open>urlparse\<close> on the URIs the examples use.
\<close>

definition example_env :: env where
  "example_env =
     \<lparr>hs256 = (\<lambda>key payload. Inr (''sig:'' @ key)),
      fernet_encrypt = (\<lambda>key plaintext. Inr (''enc:'' @ plaintext)),
      fernet_decrypt = (\<lambda>key ciphertext.
         if take 4 ciphertext = ''enc:'' then Inr (drop 4 ciphertext) else Inl ''InvalidToken''),
      urlparse = (\<lambda>uri.
         if uri = ''https://cb'' then Inr (''https'', ''cb'')
         else if uri = ''javascript:alert(1)'' then Inr (''javascript'', [])
         else Inr ([], [])),
      jwt_secret_key = ''secret'',
      deapi_api_base_url = ''https://api.deapi.ai''\<rparr>"

text \<open>The verifier and the challenge of RFC 7636, appendix B.\<close>

definition rfc_verifier :: string where
  "rfc_verifier = ''dBjftJeZ4CVP-mB92K27uhbUJU1p1r_wW1gFWFOEjXk''"

definition rfc_challenge :: string where
  "rfc_challenge = ''E9Melhoa2OwvFrEMTJguCHaoeK1t8URWbuGJSstw-cM''"

text \<open>The challenge a client registers when its verifier is the empty string.\<close>

definition empty_challenge :: string where
  "empty_challenge = ''47DEQpj8HBSa-_TImW-5JCeuQeRkm5NMpJWZG3hSuFU''"

text \<open>A pending authorization, issued at time 0, and a token request that redeems it.\<close>

definition example_data :: "string \<Rightarrow> auth_data" where
  "example_data challenge =
     \<lparr>client_id = ''deapi-mcp'', redirect_uri = ''https://cb'', code_challenge = challenge,
      expires_at = 600, state = Some ''xyz''\<rparr>"

definition example_form :: "string option \<Rightarrow> string option \<Rightarrow> token_form" where
  "example_form verifier secret =
     \<lparr>f_grant_type = Some ''authorization_code'', f_client_id = Some ''deapi-mcp'',
      f_client_secret = secret, f_code = Some ''c0de'', f_code_verifier = verifier,
      f_redirect_uri = Some ''https://cb'', f_refresh_token = None\<rparr>"

text \<open>The token pair \<open>example_env\<close> creates at time 10 for the credential \<open>0123456789abcdef\<close>.\<close>

definition example_access_token :: token where
  "example_access_token =
     JWT [(''iss'', Str ''https://api.deapi.ai''), (''sub'', Str ''deapi-mcp''),
          (''aud'', Str ''deapi-mcp-api''), (''exp'', Num 3610), (''iat'', Num 10),
          (''deapi_token_enc'', Str ''enc:0123456789abcdef'')]
       ''sig:secret''"

definition example_refresh_token :: token where
  "example_refresh_token =
     JWT [(''iss'', Str ''https://api.deapi.ai''), (''sub'', Str ''deapi-mcp''),
          (''aud'', Str ''deapi-mcp-refresh''), (''exp'', Num 2592010), (''iat'', Num 10),
          (''deapi_token_enc'', Str ''enc:0123456789abcdef''), (''token_type'', Str ''refresh'')]
       ''sig:secret''"

text \<open>A signed token for the refresh audience that carries no \<open>token_type\<close> claim.\<close>

definition unmarked_refresh_token :: token where
  "unmarked_refresh_token =
     JWT [(''sub'', Str ''deapi-mcp''), (''aud'', Str ''deapi-mcp-refresh''), (''exp'', Num 2592010)]
       ''sig:secret''"

text \<open>A well-formed authorization request, and a store of 1000 codes that expire at 600.\<close>

definition example_query :: authorize_query where
  "example_query =
     \<lparr>q_client_id = Some ''deapi-mcp'', q_redirect_uri = Some ''https://cb'',
      q_state = Some ''xyz'', q_code_challenge = Some rfc_challenge,
      q_code_challenge_method = Some ''S256'', q_response_type = Some ''code''\<rparr>"

definition full_store :: store where
  "full_store = map (\<lambda>i. (replicate (Suc i) CHR ''c'', example_data rfc_challenge)) [0..<1000]"

text \<open>Status data, a manager for video jobs, and four polling sessions.\<close>

definition processing_data :: JobStatusData where
  "processing_data =
     \<lparr>d_status = PROCESSING, d_preview = None, d_result_url = None, d_result = None,
      d_progress = None\<rparr>"


definition failed_data :: JobStatusData where
  "failed_data =
     \<lparr>d_status = FAILED, d_preview = None, d_result_url = None, d_result = None,
      d_progress = None\<rparr>"

definition video_manager :: PollingManager where
  "video_manager = PollingManager_init settings ''video''"




text \<open>
  The job stays in progress, and the second iteration starts 901 seconds into the session.
\<close>

definition never_done :: world where
  "never_done =
     \<lparr>get_job_status = (\<lambda>k. Returns processing_data),
      clock = (\<lambda>k. if k = 1 then 0 else 901)\<rparr>"

text \<open>The second check finds the job failed upstream.\<close>

definition fails_upstream :: world where
  "fails_upstream =
     \<lparr>get_job_status = (\<lambda>k. if k < 2 then Returns processing_data else Returns failed_data),
      clock = (\<lambda>k. if k = 1 then 0 else 5)\<rparr>"






section \<open>Hash values of the examples\<close>

lemma encode_rfc_verifier:
  "encode rfc_verifier =
     [100, 66, 106, 102, 116, 74, 101, 90, 52, 67, 86, 80, 45, 109, 66, 57, 50, 75, 50, 55, 117,
      104, 98, 85, 74, 85, 49, 112, 49, 114, 95, 119, 87, 49, 103, 70, 87, 70, 79, 69, 106, 88,
      107]"
  by (simp add: encode_def rfc_verifier_def)

lemma sha256_rfc_verifier:
  "sha256 [100, 66, 106, 102, 116, 74, 101, 90, 52, 67, 86, 80, 45, 109, 66, 57, 50, 75, 50, 55,
           117, 104, 98, 85, 74, 85, 49, 112, 49, 114, 95, 119, 87, 49, 103, 70, 87, 70, 79, 69,
           106, 88, 107] =
     [19, 211, 30, 150, 26, 26, 216, 236, 47, 22, 177, 12, 76, 152, 46, 8, 118, 168, 120, 173,
      109, 241, 68, 86, 110, 225, 137, 74, 203, 112, 249, 195]"
  by code_simp

lemma sha256_empty:
  "sha256 [] =
     [227, 176, 196, 66, 152, 252, 28, 20, 154, 251, 244, 200, 153, 111, 185, 36, 39, 174, 65,
      228, 100, 155, 147, 76, 164, 149, 153, 27, 120, 82, 184, 85]"
  by code_simp

lemma challenge_of_rfc_verifier:
  "rstrip_eq (urlsafe_b64encode (sha256 (encode rfc_verifier))) = rfc_challenge"
  by (simp add: encode_rfc_verifier sha256_rfc_verifier rstrip_eq_def b64c_def b64_alphabet_def
      rfc_challenge_def)

lemma challenge_of_empty_verifier:
  "rstrip_eq (urlsafe_b64encode (sha256 (encode []))) = empty_challenge"
  by (simp add: encode_def sha256_empty rstrip_eq_def b64c_def b64_alphabet_def
      empty_challenge_def)

lemma verify_rfc: "verify_pkce_challenge rfc_verifier rfc_challenge"
  by (simp add: verify_pkce_challenge_def challenge_of_rfc_verifier)

lemma not_verify_rfc_empty: "\<not> verify_pkce_challenge rfc_verifier empty_challenge"
  using challenge_of_rfc_verifier
  by (simp add: verify_pkce_challenge_def rfc_challenge_def empty_challenge_def)

lemma rfc_verifier_nonempty: "rfc_verifier \<noteq> []"
  by (simp add: rfc_verifier_def)

section \<open>The token endpoint and the code store\<close>

lemma map_of_delete_same: "map_of (AList.delete k xs) k = None"
  by (simp add: delete_conv')

lemma example_tokens:
  "create_jwt example_env 10 ''0123456789abcdef'' DEFAULT_CLIENT_ID = Inr example_access_token"
  "create_refresh_token example_env 10 ''0123456789abcdef'' DEFAULT_CLIENT_ID =
     Inr example_refresh_token"
  by (simp_all add: create_jwt_def create_refresh_token_def encrypt_token_def jwt_encode_def
      example_env_def example_access_token_def example_refresh_token_def DEFAULT_CLIENT_ID_def
      JWT_EXPIRATION_SECONDS_def REFRESH_TOKEN_EXPIRATION_SECONDS_def py_int_def)

lemma example_form_fields:
  "f_grant_type (example_form v sec) = Some ''authorization_code''"
  "f_client_id (example_form v sec) = Some DEFAULT_CLIENT_ID"
  "f_code (example_form v sec) = Some ''c0de''"
  "f_redirect_uri (example_form v sec) = Some (redirect_uri (example_data c))"
  "f_code_verifier (example_form v sec) = v"
  "f_client_secret (example_form v sec) = sec"
  by (simp_all add: example_form_def example_data_def DEFAULT_CLIENT_ID_def)

lemma example_data_fields:
  "\<not> 10 > expires_at (example_data c)" "code_challenge (example_data c) = c"
  by (simp_all add: example_data_def)

text \<open>
  C1 (one-time authorization code), as the code has it. A first \<open>authorization_code\<close> request
  of the supported client that presents a code present and unexpired in the store, its
  redirect URI, a non-empty matching PKCE verifier and a client secret of at least 10
  characters returns the token pair (when creating the tokens does not raise) and removes
  the code from the store; a second \<open>authorization_code\<close> request of the supported client
  with the same code is answered \<open>invalid_grant\<close>, status 400.
\<close>

theorem one_time_code:
  assumes "f_grant_type form = Some ''authorization_code''"
    and "f_client_id form = Some DEFAULT_CLIENT_ID"
    and "f_code form = Some code" and "code \<noteq> []"
    and "map_of codes code = Some data"
    and "\<not> now > expires_at data"
    and "f_redirect_uri form = Some (redirect_uri data)"
    and "f_code_verifier form = Some v" and "v \<noteq> []"
    and "verify_pkce_challenge v (code_challenge data)"
    and "f_client_secret form = Some secret" and "10 \<le> length secret"
    and "create_jwt ev now secret DEFAULT_CLIENT_ID = Inr access"
    and "create_refresh_token ev now secret DEFAULT_CLIENT_ID = Inr refresh"
    and "f_grant_type form' = Some ''authorization_code''"
    and "f_client_id form' = Some DEFAULT_CLIENT_ID"
    and "f_code form' = Some code"
  shows "token_endpoint ev now codes form =
           (TokenResponse access ''Bearer'' 3600 refresh, AList.delete code codes) \<and>
         map_of (AList.delete code codes) code = None \<and>
         token_endpoint ev later (AList.delete code codes) form' =
           (JSONError ''invalid_grant'' (Some ''Invalid authorization code'') 400,
            AList.delete code codes)"
proof -
  have first: "token_endpoint ev now codes form =
           (TokenResponse access ''Bearer'' 3600 refresh, AList.delete code codes)"
    using assms(1-14)
    by (auto simp: token_endpoint_def authorization_code_grant_def falsy_def
        DEFAULT_CLIENT_ID_def issue_tokens_def JWT_EXPIRATION_SECONDS_def)
  have gone: "map_of (AList.delete code codes) code = None"
    by (rule map_of_delete_same)
  have second: "token_endpoint ev later (AList.delete code codes) form' =
           (JSONError ''invalid_grant'' (Some ''Invalid authorization code'') 400,
            AList.delete code codes)"
    using assms(4,15-17) gone
    by (simp add: token_endpoint_def authorization_code_grant_def falsy_def
        DEFAULT_CLIENT_ID_def)
  from first gone second show ?thesis by simp
qed

theorem one_time_code_witness:
  "token_endpoint example_env 10 [(''c0de'', example_data rfc_challenge)]
     (example_form (Some rfc_verifier) (Some ''0123456789abcdef'')) =
     (TokenResponse example_access_token ''Bearer'' 3600 example_refresh_token, []) \<and>
   token_endpoint example_env 20 []
     (example_form (Some rfc_verifier) (Some ''0123456789abcdef'')) =
     (JSONError ''invalid_grant'' (Some ''Invalid authorization code'') 400, [])"
  using one_time_code [where form = "example_form (Some rfc_verifier) (Some ''0123456789abcdef'')"
      and form' = "example_form (Some rfc_verifier) (Some ''0123456789abcdef'')"
      and code = "''c0de''" and codes = "[(''c0de'', example_data rfc_challenge)]"
      and data = "example_data rfc_challenge" and now = 10 and later = 20 and ev = example_env
      and v = rfc_verifier and secret = "''0123456789abcdef''"
      and access = example_access_token and refresh = example_refresh_token]
    verify_rfc rfc_verifier_nonempty example_tokens
  by (simp add: example_form_fields example_data_fields)

text \<open>
  The claim as the specification states it fails on two requests that present a stored,
  unexpired code, its redirect URI and a matching verifier: one whose client secret has five
  characters is answered \<open>invalid_client\<close>, and one whose matching verifier is the empty
  string is answered \<open>invalid_request\<close>.
\<close>

theorem one_time_code_counterexample:
  "verify_pkce_challenge rfc_verifier (code_challenge (example_data rfc_challenge)) \<and>
   fst (token_endpoint example_env 10 [(''c0de'', example_data rfc_challenge)]
          (example_form (Some rfc_verifier) (Some ''short''))) =
     JSONError ''invalid_client'' (Some ''Invalid client_secret (Deapi token)'') 401 \<and>
   verify_pkce_challenge [] (code_challenge (example_data empty_challenge)) \<and>
   fst (token_endpoint example_env 10 [(''c0de'', example_data empty_challenge)]
          (example_form (Some []) (Some ''0123456789abcdef''))) =
     JSONError ''invalid_request'' (Some ''code_verifier is required'') 400"
  using verify_rfc rfc_verifier_nonempty challenge_of_empty_verifier
  by (simp add: token_endpoint_def authorization_code_grant_def falsy_def
      example_form_fields example_data_fields verify_pkce_challenge_def DEFAULT_CLIENT_ID_def)

text \<open>
  C3 (PKCE binding), as the code has it. Take an \<open>authorization_code\<close> request of the
  supported client with a stored, unexpired code, its redirect URI and a client secret of at
  least 10 characters, for which creating the tokens does not raise. With a non-empty
  verifier the request succeeds if and only if the unpadded base64url text of the SHA-256 of
  the verifier is equal, as a string, to the stored challenge, and any other non-empty
  verifier is answered \<open>invalid_grant\<close> with the code left in the store. The empty verifier
  is answered \<open>invalid_request\<close>, whatever the stored challenge.
\<close>

theorem pkce_binding:
  assumes "f_grant_type form = Some ''authorization_code''"
    and "f_client_id form = Some DEFAULT_CLIENT_ID"
    and "f_code form = Some code" and "code \<noteq> []"
    and "map_of codes code = Some data"
    and "\<not> now > expires_at data"
    and "f_redirect_uri form = Some (redirect_uri data)"
    and "f_code_verifier form = Some v"
    and "f_client_secret form = Some secret" and "10 \<le> length secret"
    and "create_jwt ev now secret DEFAULT_CLIENT_ID = Inr access"
    and "create_refresh_token ev now secret DEFAULT_CLIENT_ID = Inr refresh"
  shows "(v \<noteq> [] \<longrightarrow>
           (succeeded (fst (token_endpoint ev now codes form)) \<longleftrightarrow>
              rstrip_eq (urlsafe_b64encode (sha256 (encode v))) = code_challenge data)) \<and>
         (v \<noteq> [] \<and> rstrip_eq (urlsafe_b64encode (sha256 (encode v))) \<noteq> code_challenge data \<longrightarrow>
           token_endpoint ev now codes form =
             (JSONError ''invalid_grant'' (Some ''Invalid code_verifier'') 400, codes)) \<and>
         (v = [] \<longrightarrow>
           token_endpoint ev now codes form =
             (JSONError ''invalid_request'' (Some ''code_verifier is required'') 400, codes))"
proof (cases "v = []")
  case True
  with assms show ?thesis
    by (simp add: token_endpoint_def authorization_code_grant_def falsy_def
        DEFAULT_CLIENT_ID_def)
next
  case False
  show ?thesis
  proof (cases "verify_pkce_challenge v (code_challenge data)")
    case True
    with assms False have "token_endpoint ev now codes form =
        (TokenResponse access ''Bearer'' 3600 refresh, AList.delete code codes)"
      by (auto simp: token_endpoint_def authorization_code_grant_def falsy_def
          DEFAULT_CLIENT_ID_def issue_tokens_def JWT_EXPIRATION_SECONDS_def)
    with True False show ?thesis
      by (simp add: succeeded_def verify_pkce_challenge_def)
  next
    case wrong: False
    with assms False have "token_endpoint ev now codes form =
        (JSONError ''invalid_grant'' (Some ''Invalid code_verifier'') 400, codes)"
      by (simp add: token_endpoint_def authorization_code_grant_def falsy_def
          DEFAULT_CLIENT_ID_def)
    with wrong False show ?thesis
      by (simp add: succeeded_def verify_pkce_challenge_def)
  qed
qed

theorem pkce_binding_witness:
  "rfc_verifier \<noteq> [] \<and>
   rstrip_eq (urlsafe_b64encode (sha256 (encode rfc_verifier))) = rfc_challenge \<and>
   succeeded (fst (token_endpoint example_env 10 [(''c0de'', example_data rfc_challenge)]
                     (example_form (Some rfc_verifier) (Some ''0123456789abcdef'')))) \<and>
   rstrip_eq (urlsafe_b64encode (sha256 (encode rfc_verifier))) \<noteq> empty_challenge \<and>
   token_endpoint example_env 10 [(''c0de'', example_data empty_challenge)]
     (example_form (Some rfc_verifier) (Some ''0123456789abcdef'')) =
     (JSONError ''invalid_grant'' (Some ''Invalid code_verifier'') 400,
      [(''c0de'', example_data empty_challenge)]) \<and>
   token_endpoint example_env 10 [(''c0de'', example_data empty_challenge)]
     (example_form (Some []) (Some ''0123456789abcdef'')) =
     (JSONError ''invalid_request'' (Some ''code_verifier is required'') 400,
      [(''c0de'', example_data empty_challenge)])"
proof -
  note inst = pkce_binding [where code = "''c0de''" and now = 10 and ev = example_env
      and secret = "''0123456789abcdef''" and access = example_access_token
      and refresh = example_refresh_token]
  have differ: "rstrip_eq (urlsafe_b64encode (sha256 (encode rfc_verifier))) \<noteq> empty_challenge"
    by (simp add: challenge_of_rfc_verifier rfc_challenge_def empty_challenge_def)
  have a: "succeeded (fst (token_endpoint example_env 10 [(''c0de'', example_data rfc_challenge)]
                     (example_form (Some rfc_verifier) (Some ''0123456789abcdef''))))"
    using inst [where form = "example_form (Some rfc_verifier) (Some ''0123456789abcdef'')"
        and codes = "[(''c0de'', example_data rfc_challenge)]"
        and data = "example_data rfc_challenge" and v = rfc_verifier]
      example_tokens rfc_verifier_nonempty challenge_of_rfc_verifier
    by (simp add: example_form_fields example_data_fields)
  have b: "token_endpoint example_env 10 [(''c0de'', example_data empty_challenge)]
     (example_form (Some rfc_verifier) (Some ''0123456789abcdef'')) =
     (JSONError ''invalid_grant'' (Some ''Invalid code_verifier'') 400,
      [(''c0de'', example_data empty_challenge)])"
    using inst [where form = "example_form (Some rfc_verifier) (Some ''0123456789abcdef'')"
        and codes = "[(''c0de'', example_data empty_challenge)]"
        and data = "example_data empty_challenge" and v = rfc_verifier]
      example_tokens rfc_verifier_nonempty differ
    by (simp add: example_form_fields example_data_fields)
  have c: "token_endpoint example_env 10 [(''c0de'', example_data empty_challenge)]
     (example_form (Some []) (Some ''0123456789abcdef'')) =
     (JSONError ''invalid_request'' (Some ''code_verifier is required'') 400,
      [(''c0de'', example_data empty_challenge)])"
    using inst [where form = "example_form (Some []) (Some ''0123456789abcdef'')"
        and codes = "[(''c0de'', example_data empty_challenge)]"
        and data = "example_data empty_challenge" and v = "[]"]
      example_tokens
    by (simp add: example_form_fields example_data_fields)
  from a b c differ rfc_verifier_nonempty challenge_of_rfc_verifier show ?thesis by simp
qed

text \<open>
  The claim as the specification states it fails for the empty verifier: its hash text is
  the stored challenge, and the request is refused.
\<close>

theorem pkce_binding_counterexample:
  "rstrip_eq (urlsafe_b64encode (sha256 (encode []))) =
     code_challenge (example_data empty_challenge) \<and>
   token_endpoint example_env 10 [(''c0de'', example_data empty_challenge)]
     (example_form (Some []) (Some ''0123456789abcdef'')) =
     (JSONError ''invalid_request'' (Some ''code_verifier is required'') 400,
      [(''c0de'', example_data empty_challenge)])"
  using challenge_of_empty_verifier
  by (simp add: token_endpoint_def authorization_code_grant_def falsy_def
      example_form_fields example_data_fields DEFAULT_CLIENT_ID_def)

text \<open>
  C4 (missing or wrong verifier), as the code has it. For an \<open>authorization_code\<close> request
  of the supported client with a stored, unexpired code and its redirect URI: a verifier
  that is missing or empty is answered \<open>invalid_request\<close>, and a non-empty verifier that
  does not match the stored challenge is answered \<open>invalid_grant\<close>; both with status 400
  and the code left in the store.
\<close>

theorem missing_or_wrong_verifier:
  assumes "f_grant_type form = Some ''authorization_code''"
    and "f_client_id form = Some DEFAULT_CLIENT_ID"
    and "f_code form = Some code" and "code \<noteq> []"
    and "map_of codes code = Some data"
    and "\<not> now > expires_at data"
    and "f_redirect_uri form = Some (redirect_uri data)"
  shows "(falsy (f_code_verifier form) \<longrightarrow>
           token_endpoint ev now codes form =
             (JSONError ''invalid_request'' (Some ''code_verifier is required'') 400, codes)) \<and>
         (\<forall>v. f_code_verifier form = Some v \<and> v \<noteq> [] \<and>
              \<not> verify_pkce_challenge v (code_challenge data) \<longrightarrow>
           token_endpoint ev now codes form =
             (JSONError ''invalid_grant'' (Some ''Invalid code_verifier'') 400, codes))"
  using assms
  by (auto simp: token_endpoint_def authorization_code_grant_def falsy_def DEFAULT_CLIENT_ID_def
      split: option.splits)

theorem missing_or_wrong_verifier_witness:
  "token_endpoint example_env 10 [(''c0de'', example_data empty_challenge)]
     (example_form None (Some ''0123456789abcdef'')) =
     (JSONError ''invalid_request'' (Some ''code_verifier is required'') 400,
      [(''c0de'', example_data empty_challenge)]) \<and>
   token_endpoint example_env 10 [(''c0de'', example_data empty_challenge)]
     (example_form (Some rfc_verifier) (Some ''0123456789abcdef'')) =
     (JSONError ''invalid_grant'' (Some ''Invalid code_verifier'') 400,
      [(''c0de'', example_data empty_challenge)])"
proof -
  note inst = missing_or_wrong_verifier [where code = "''c0de''" and now = 10
      and codes = "[(''c0de'', example_data empty_challenge)]"
      and data = "example_data empty_challenge" and ev = example_env]
  have a: "token_endpoint example_env 10 [(''c0de'', example_data empty_challenge)]
     (example_form None (Some ''0123456789abcdef'')) =
     (JSONError ''invalid_request'' (Some ''code_verifier is required'') 400,
      [(''c0de'', example_data empty_challenge)])"
    using inst [where form = "example_form None (Some ''0123456789abcdef'')"]
    by (simp add: example_form_fields example_data_fields falsy_def)
  have b: "token_endpoint example_env 10 [(''c0de'', example_data empty_challenge)]
     (example_form (Some rfc_verifier) (Some ''0123456789abcdef'')) =
     (JSONError ''invalid_grant'' (Some ''Invalid code_verifier'') 400,
      [(''c0de'', example_data empty_challenge)])"
    using inst [where form = "example_form (Some rfc_verifier) (Some ''0123456789abcdef'')"]
      not_verify_rfc_empty rfc_verifier_nonempty
    by (simp add: example_form_fields example_data_fields)
  from a b show ?thesis by (rule conjI)
qed

text \<open>A request without a verifier is answered \<open>invalid_request\<close>, not \<open>invalid_grant\<close>.\<close>

theorem missing_verifier_counterexample:
  "fst (token_endpoint example_env 10 [(''c0de'', example_data rfc_challenge)]
          (example_form None (Some ''0123456789abcdef''))) =
     JSONError ''invalid_request'' (Some ''code_verifier is required'') 400"
  by (simp add: token_endpoint_def authorization_code_grant_def falsy_def
      example_form_fields example_data_fields DEFAULT_CLIENT_ID_def)

text \<open>
  C10 (the code is consumed before the client secret is checked). An \<open>authorization_code\<close>
  request of the supported client whose code, redirect URI and verifier are all valid but
  whose client secret is absent or shorter than 10 characters is answered \<open>invalid_client\<close>,
  status 401, and the code is removed from the store all the same; the same request sent
  again with a valid client secret is answered \<open>invalid_grant\<close>.
\<close>

theorem consumed_before_secret_check:
  assumes "f_grant_type form = Some ''authorization_code''"
    and "f_client_id form = Some DEFAULT_CLIENT_ID"
    and "f_code form = Some code" and "code \<noteq> []"
    and "map_of codes code = Some data"
    and "\<not> now > expires_at data"
    and "f_redirect_uri form = Some (redirect_uri data)"
    and "f_code_verifier form = Some v" and "v \<noteq> []"
    and "verify_pkce_challenge v (code_challenge data)"
    and "f_client_secret form = None \<or> (\<exists>s. f_client_secret form = Some s \<and> length s < 10)"
    and "10 \<le> length secret"
  shows "token_endpoint ev now codes form =
           (JSONError ''invalid_client'' (Some ''Invalid client_secret (Deapi token)'') 401,
            AList.delete code codes) \<and>
         map_of (AList.delete code codes) code = None \<and>
         token_endpoint ev later (AList.delete code codes) (form\<lparr>f_client_secret := Some secret\<rparr>) =
           (JSONError ''invalid_grant'' (Some ''Invalid authorization code'') 400,
            AList.delete code codes)"
proof -
  have first: "token_endpoint ev now codes form =
           (JSONError ''invalid_client'' (Some ''Invalid client_secret (Deapi token)'') 401,
            AList.delete code codes)"
    using assms(1-11)
    by (auto simp: token_endpoint_def authorization_code_grant_def falsy_def
        DEFAULT_CLIENT_ID_def)
  have gone: "map_of (AList.delete code codes) code = None"
    by (rule map_of_delete_same)
  have again: "token_endpoint ev later (AList.delete code codes)
                 (form\<lparr>f_client_secret := Some secret\<rparr>) =
           (JSONError ''invalid_grant'' (Some ''Invalid authorization code'') 400,
            AList.delete code codes)"
    using assms(1-4) gone
    by (simp add: token_endpoint_def authorization_code_grant_def falsy_def
        DEFAULT_CLIENT_ID_def)
  from first gone again show ?thesis by simp
qed

theorem consumed_before_secret_check_witness:
  "token_endpoint example_env 10 [(''c0de'', example_data rfc_challenge)]
     (example_form (Some rfc_verifier) (Some ''short'')) =
     (JSONError ''invalid_client'' (Some ''Invalid client_secret (Deapi token)'') 401, []) \<and>
   token_endpoint example_env 20 []
     (example_form (Some rfc_verifier) (Some ''0123456789abcdef'')) =
     (JSONError ''invalid_grant'' (Some ''Invalid authorization code'') 400, [])"
  using consumed_before_secret_check [where form = "example_form (Some rfc_verifier) (Some ''short'')"
      and code = "''c0de''" and codes = "[(''c0de'', example_data rfc_challenge)]"
      and data = "example_data rfc_challenge" and now = 10 and later = 20 and ev = example_env
      and v = rfc_verifier and secret = "''0123456789abcdef''"]
    verify_rfc rfc_verifier_nonempty
  by (simp add: example_form_fields example_data_fields) (simp add: example_form_def)

section \<open>Audience isolation\<close>

lemma refresh_payload_aud:
  assumes "create_refresh_token ev now c cid = Inr tok"
  shows "\<exists>payload sg. tok = JWT payload sg \<and> map_of payload ''aud'' = Some (Str ''deapi-mcp-refresh'')"
  using assms
  by (auto simp: create_refresh_token_def jwt_encode_def Let_def split: sum.splits)

lemma access_payload_aud:
  assumes "create_jwt ev now c cid = Inr tok"
  shows "\<exists>payload sg. tok = JWT payload sg \<and> map_of payload ''aud'' = Some (Str ''deapi-mcp-api'')"
  using assms
  by (auto simp: create_jwt_def jwt_encode_def Let_def split: sum.splits)

lemma jwt_decode_wrong_audience:
  assumes "map_of payload ''aud'' = Some (Str a)" and "a \<noteq> audience"
  shows "jwt_decode ev now (JWT payload sg) key audience = None"
  using assms by (auto simp: jwt_decode_def aud_valid_def)

text \<open>
  C5 (audience isolation). For every upstream credential, a refresh token created for it
  fails verification as an access token (\<open>decode_jwt\<close> returns \<open>None\<close>) and an access
  token created for it fails verification as a refresh token (\<open>decode_refresh_token\<close>
  returns \<open>None\<close>), at every time of verification; and every token that verifies against
  the refresh audience but whose \<open>token_type\<close> claim is not \<open>refresh\<close> is rejected by
  \<open>decode_refresh_token\<close> as well.
\<close>

theorem audience_isolation:
  "(\<forall>tok. create_refresh_token ev issued c cid = Inr tok \<longrightarrow> decode_jwt ev now tok = None) \<and>
   (\<forall>tok. create_jwt ev issued c cid = Inr tok \<longrightarrow> decode_refresh_token ev now tok = None) \<and>
   (\<forall>tok payload.
      jwt_decode ev now tok (jwt_secret_key ev) ''deapi-mcp-refresh'' = Some payload \<and>
      map_of payload ''token_type'' \<noteq> Some (Str ''refresh'') \<longrightarrow>
      decode_refresh_token ev now tok = None)"
proof (intro conjI allI impI)
  fix tok
  assume "create_refresh_token ev issued c cid = Inr tok"
  then obtain payload sg where "tok = JWT payload sg"
    and "map_of payload ''aud'' = Some (Str ''deapi-mcp-refresh'')"
    using refresh_payload_aud by blast
  then show "decode_jwt ev now tok = None"
    by (simp add: decode_jwt_def jwt_decode_wrong_audience)
next
  fix tok
  assume "create_jwt ev issued c cid = Inr tok"
  then obtain payload sg where "tok = JWT payload sg"
    and "map_of payload ''aud'' = Some (Str ''deapi-mcp-api'')"
    using access_payload_aud by blast
  then show "decode_refresh_token ev now tok = None"
    by (simp add: decode_refresh_token_def jwt_decode_wrong_audience)
next
  fix tok payload
  assume "jwt_decode ev now tok (jwt_secret_key ev) ''deapi-mcp-refresh'' = Some payload \<and>
      map_of payload ''token_type'' \<noteq> Some (Str ''refresh'')"
  then show "decode_refresh_token ev now tok = None"
    by (simp add: decode_refresh_token_def)
qed

theorem audience_isolation_witness:
  "create_refresh_token example_env 10 ''0123456789abcdef'' DEFAULT_CLIENT_ID = Inr example_refresh_token \<and>
   decode_jwt example_env 20 example_refresh_token = None \<and>
   create_jwt example_env 10 ''0123456789abcdef'' DEFAULT_CLIENT_ID = Inr example_access_token \<and>
   decode_refresh_token example_env 20 example_access_token = None \<and>
   jwt_decode example_env 20 unmarked_refresh_token (jwt_secret_key example_env) ''deapi-mcp-refresh''
     = Some [(''sub'', Str ''deapi-mcp''), (''aud'', Str ''deapi-mcp-refresh''), (''exp'', Num 2592010)] \<and>
   decode_refresh_token example_env 20 unmarked_refresh_token = None"
proof -
  have d: "jwt_decode example_env 20 unmarked_refresh_token (jwt_secret_key example_env) ''deapi-mcp-refresh''
     = Some [(''sub'', Str ''deapi-mcp''), (''aud'', Str ''deapi-mcp-refresh''), (''exp'', Num 2592010)]"
    by (simp add: jwt_decode_def unmarked_refresh_token_def example_env_def exp_valid_def aud_valid_def)
  show ?thesis
    using audience_isolation [of example_env 10 "''0123456789abcdef''" DEFAULT_CLIENT_ID 20]
      example_tokens d
    by simp
qed

section \<open>The authorization endpoint\<close>

lemma validate_https_cb: "validate_redirect_uri example_env ''https://cb''"
  by (simp add: validate_redirect_uri_def example_env_def lower_def lower_char_def
      ALLOWED_REDIRECT_SCHEMES_def)

text \<open>
  C2 (error channels of the authorization endpoint), on the code: a request whose client
  identifier is not the supported one and whose redirect URI is \<open>javascript:alert(1)\<close>, a
  URI that \<open>_validate_redirect_uri\<close> rejects, is answered with a redirect to that URI and
  not with a JSON error.
\<close>

theorem authorize_redirects_to_unvalidated_uri:
  "authorize_endpoint example_env ''c0de'' 0 []
     \<lparr>q_client_id = Some ''evil'', q_redirect_uri = Some ''javascript:alert(1)'',
      q_state = None, q_code_challenge = None, q_code_challenge_method = None,
      q_response_type = None\<rparr> =
     (RedirectResponse ''javascript:alert(1)''
        [(''error'', ''unauthorized_client''), (''error_description'', ''Invalid client_id'')],
      []) \<and>
   \<not> validate_redirect_uri example_env ''javascript:alert(1)''"
  by (simp add: authorize_endpoint_def error_redirect_def state_param_def falsy_def
      DEFAULT_CLIENT_ID_def validate_redirect_uri_def example_env_def lower_def lower_char_def
      ALLOWED_REDIRECT_SCHEMES_def)

lemma length_prune_le: "length (prune_expired_authorization_codes now codes) \<le> length codes"
  by (simp add: prune_expired_authorization_codes_def)

lemma distinct_prune:
  "distinct (map fst codes) \<Longrightarrow> distinct (map fst (prune_expired_authorization_codes now codes))"
  by (simp add: prune_expired_authorization_codes_def distinct_map_filter)

lemma length_update_le: "length (AList.update k v xs) \<le> Suc (length xs)"
  by (induction xs) auto

lemma length_delete_le: "length (AList.delete k xs) \<le> length xs"
  by (simp add: AList.delete_eq)

lemma token_endpoint_store:
  "snd (token_endpoint ev now codes form) = codes \<or>
   (\<exists>code. snd (token_endpoint ev now codes form) = AList.delete code codes)"
  by (auto simp: token_endpoint_def authorization_code_grant_def split: option.splits)

lemma authorize_endpoint_store:
  "snd (authorize_endpoint ev auth_code now codes q) = codes \<or>
   snd (authorize_endpoint ev auth_code now codes q) = prune_expired_authorization_codes now codes \<or>
   (length (prune_expired_authorization_codes now codes) < AUTHORIZATION_CODE_MAX_ENTRIES \<and>
    (\<exists>d. snd (authorize_endpoint ev auth_code now codes q) =
       AList.update auth_code d (prune_expired_authorization_codes now codes)))"
  by (auto simp: authorize_endpoint_def Let_def split: option.splits)

lemma reachable_bounded:
  assumes "reachable ev codes"
  shows "length codes \<le> AUTHORIZATION_CODE_MAX_ENTRIES \<and> distinct (map fst codes)"
  using assms
proof (induction rule: reachable.induct)
  case start
  show ?case by simp
next
  case (authorize codes auth_code now q)
  let ?pruned = "prune_expired_authorization_codes now codes"
  have p: "length ?pruned \<le> AUTHORIZATION_CODE_MAX_ENTRIES" "distinct (map fst ?pruned)"
    using authorize.IH length_prune_le [of now codes] distinct_prune by auto
  consider "snd (authorize_endpoint ev auth_code now codes q) = codes"
    | "snd (authorize_endpoint ev auth_code now codes q) = ?pruned"
    | d where "length ?pruned < AUTHORIZATION_CODE_MAX_ENTRIES"
        "snd (authorize_endpoint ev auth_code now codes q) = AList.update auth_code d ?pruned"
    using authorize_endpoint_store by blast
  then show ?case
  proof cases
    case 1
    then show ?thesis using authorize.IH by simp
  next
    case 2
    then show ?thesis using p by simp
  next
    case 3
    have "length (AList.update auth_code d ?pruned) \<le> Suc (length ?pruned)"
      by (rule length_update_le)
    then show ?thesis using 3 p by (simp add: distinct_update)
  qed
next
  case (token codes now form)
  consider "snd (token_endpoint ev now codes form) = codes"
    | code where "snd (token_endpoint ev now codes form) = AList.delete code codes"
    using token_endpoint_store by blast
  then show ?case
  proof cases
    case 1
    then show ?thesis using token.IH by simp
  next
    case 2
    have "length (AList.delete code codes) \<le> length codes"
      by (rule length_delete_le)
    then show ?thesis using 2 token.IH by (simp add: distinct_delete)
  qed
qed

lemma prune_live:
  "set (prune_expired_authorization_codes now codes) = {(c, d) \<in> set codes. \<not> now > expires_at d}"
  by (auto simp: prune_expired_authorization_codes_def)

lemma failing_request_keeps_store:
  assumes "\<not> passes_parameter_checks ev q"
  shows "snd (authorize_endpoint ev auth_code now codes q) = codes"
proof (cases "falsy (q_client_id q) \<or> q_client_id q \<noteq> Some DEFAULT_CLIENT_ID")
  case True
  then show ?thesis
    by (auto simp: authorize_endpoint_def split: option.splits)
next
  case False
  with assms show ?thesis
    by (auto simp: authorize_endpoint_def passes_parameter_checks_def split: option.splits)
qed

text \<open>
  C6 (capacity bound with lazy pruning), as the code has it. Every reachable code store
  holds at most 1000 records, under distinct codes. An authorization request that passes
  the checks of its parameters (supported client, valid redirect URI, response type
  \<open>code\<close>, a challenge with method \<open>S256\<close>) first prunes the store to the entries that
  have not expired; if 1000 or more remain it is answered with the \<open>server_error\<close> redirect
  and the store is the pruned one, with no new code; otherwise the new code is stored. A
  request that fails one of the checks returns before the pruning and leaves the store as
  it is.
\<close>

theorem capacity_bound:
  "(reachable ev codes \<longrightarrow>
      length codes \<le> 1000 \<and> distinct (map fst codes)) \<and>
   (q_client_id q = Some DEFAULT_CLIENT_ID \<and> q_redirect_uri q = Some uri \<and> uri \<noteq> [] \<and>
    validate_redirect_uri ev uri \<and> q_response_type q = Some ''code'' \<and>
    q_code_challenge q = Some challenge \<and> challenge \<noteq> [] \<and>
    q_code_challenge_method q = Some ''S256'' \<longrightarrow>
      set (prune_expired_authorization_codes now codes) =
        {(c, d) \<in> set codes. \<not> now > expires_at d} \<and>
      (length (prune_expired_authorization_codes now codes) \<ge> 1000 \<longrightarrow>
         authorize_endpoint ev auth_code now codes q =
           (error_redirect uri ''server_error'' ''Server is busy, please try again later''
              (q_state q),
            prune_expired_authorization_codes now codes)) \<and>
      (length (prune_expired_authorization_codes now codes) < 1000 \<longrightarrow>
         authorize_endpoint ev auth_code now codes q =
           (RedirectResponse uri ([(''code'', auth_code)] @ state_param (q_state q)),
            AList.update auth_code
              \<lparr>client_id = DEFAULT_CLIENT_ID, redirect_uri = uri, code_challenge = challenge,
               expires_at = now + 600, state = q_state q\<rparr>
              (prune_expired_authorization_codes now codes)))) \<and>
   (\<not> passes_parameter_checks ev q \<longrightarrow>
      snd (authorize_endpoint ev auth_code now codes q) = codes)"
proof (intro conjI impI)
  assume "\<not> passes_parameter_checks ev q"
  then show "snd (authorize_endpoint ev auth_code now codes q) = codes"
    by (rule failing_request_keeps_store)
next
  assume "reachable ev codes"
  then show "length codes \<le> 1000" and "distinct (map fst codes)"
    using reachable_bounded by (auto simp: AUTHORIZATION_CODE_MAX_ENTRIES_def)
next
  show "set (prune_expired_authorization_codes now codes) =
        {(c, d) \<in> set codes. \<not> now > expires_at d}"
    by (rule prune_live)
next
  assume v: "q_client_id q = Some DEFAULT_CLIENT_ID \<and> q_redirect_uri q = Some uri \<and> uri \<noteq> [] \<and>
    validate_redirect_uri ev uri \<and> q_response_type q = Some ''code'' \<and>
    q_code_challenge q = Some challenge \<and> challenge \<noteq> [] \<and>
    q_code_challenge_method q = Some ''S256''"
  {
    assume "length (prune_expired_authorization_codes now codes) \<ge> 1000"
    with v show "authorize_endpoint ev auth_code now codes q =
           (error_redirect uri ''server_error'' ''Server is busy, please try again later''
              (q_state q),
            prune_expired_authorization_codes now codes)"
      by (simp add: authorize_endpoint_def falsy_def DEFAULT_CLIENT_ID_def
          AUTHORIZATION_CODE_MAX_ENTRIES_def)
  next
    assume "length (prune_expired_authorization_codes now codes) < 1000"
    with v show "authorize_endpoint ev auth_code now codes q =
           (RedirectResponse uri ([(''code'', auth_code)] @ state_param (q_state q)),
            AList.update auth_code
              \<lparr>client_id = DEFAULT_CLIENT_ID, redirect_uri = uri, code_challenge = challenge,
               expires_at = now + 600, state = q_state q\<rparr>
              (prune_expired_authorization_codes now codes))"
      by (simp add: authorize_endpoint_def falsy_def DEFAULT_CLIENT_ID_def
          AUTHORIZATION_CODE_MAX_ENTRIES_def AUTHORIZATION_CODE_EXPIRATION_SECONDS_def)
  }
qed

lemma full_store_unexpired: "prune_expired_authorization_codes 10 full_store = full_store"
  by (simp add: prune_expired_authorization_codes_def full_store_def filter_map o_def
      example_data_def)

lemma length_full_store: "length full_store = 1000"
  by (simp add: full_store_def)

theorem capacity_bound_witness:
  "reachable example_env [] \<and> length ([] :: store) \<le> 1000 \<and>
   authorize_endpoint example_env ''c0de'' 0 [] example_query =
     (RedirectResponse ''https://cb'' [(''code'', ''c0de''), (''state'', ''xyz'')],
      [(''c0de'', example_data rfc_challenge)]) \<and>
   length (prune_expired_authorization_codes 10 full_store) \<ge> 1000 \<and>
   authorize_endpoint example_env ''c0de'' 10 full_store example_query =
     (RedirectResponse ''https://cb''
        [(''error'', ''server_error''),
         (''error_description'', ''Server is busy, please try again later''),
         (''state'', ''xyz'')],
      full_store) \<and>
   \<not> passes_parameter_checks example_env
       (example_query\<lparr>q_redirect_uri := Some ''javascript:alert(1)''\<rparr>) \<and>
   snd (authorize_endpoint example_env ''n3w'' 1000 [(''c0de'', example_data rfc_challenge)]
          (example_query\<lparr>q_redirect_uri := Some ''javascript:alert(1)''\<rparr>)) =
     [(''c0de'', example_data rfc_challenge)]"
proof -
  have q: "q_client_id example_query = Some DEFAULT_CLIENT_ID \<and>
      q_redirect_uri example_query = Some ''https://cb'' \<and> ''https://cb'' \<noteq> [] \<and>
      validate_redirect_uri example_env ''https://cb'' \<and>
      q_response_type example_query = Some ''code'' \<and>
      q_code_challenge example_query = Some rfc_challenge \<and> rfc_challenge \<noteq> [] \<and>
      q_code_challenge_method example_query = Some ''S256''"
    using validate_https_cb
    by (simp add: example_query_def DEFAULT_CLIENT_ID_def rfc_challenge_def)
  have st: "q_state example_query = Some ''xyz''" by (simp add: example_query_def)
  have r: "reachable example_env []" by (rule reachable.start)
  have a: "length ([] :: store) \<le> 1000"
    using capacity_bound [of example_env "[]"] r by simp
  have b: "authorize_endpoint example_env ''c0de'' 0 [] example_query =
     (RedirectResponse ''https://cb'' [(''code'', ''c0de''), (''state'', ''xyz'')],
      [(''c0de'', example_data rfc_challenge)])"
    using capacity_bound [of example_env "[]" example_query "''https://cb''" rfc_challenge 0
        "''c0de''"] q
    by (simp add: st prune_expired_authorization_codes_def state_param_def example_data_def
        DEFAULT_CLIENT_ID_def)
  have c: "authorize_endpoint example_env ''c0de'' 10 full_store example_query =
     (RedirectResponse ''https://cb''
        [(''error'', ''server_error''),
         (''error_description'', ''Server is busy, please try again later''),
         (''state'', ''xyz'')],
      full_store)"
    using capacity_bound [of example_env full_store example_query "''https://cb''" rfc_challenge
        10 "''c0de''"] q
    by (simp add: st full_store_unexpired length_full_store error_redirect_def state_param_def)
  have n: "\<not> passes_parameter_checks example_env
       (example_query\<lparr>q_redirect_uri := Some ''javascript:alert(1)''\<rparr>)"
    by (simp add: passes_parameter_checks_def validate_redirect_uri_def example_env_def
        lower_def lower_char_def ALLOWED_REDIRECT_SCHEMES_def)
  have d: "snd (authorize_endpoint example_env ''n3w'' 1000
                  [(''c0de'', example_data rfc_challenge)]
                  (example_query\<lparr>q_redirect_uri := Some ''javascript:alert(1)''\<rparr>)) =
     [(''c0de'', example_data rfc_challenge)]"
    using capacity_bound [of example_env "[(''c0de'', example_data rfc_challenge)]"
        "example_query\<lparr>q_redirect_uri := Some ''javascript:alert(1)''\<rparr>" "''https://cb''"
        rfc_challenge 1000 "''n3w''"] n
    by (elim conjE) simp
  from r a b c n d show ?thesis
    by (simp add: full_store_unexpired length_full_store)
qed

text \<open>
  The claim as the specification states it fails on a request that does not pass the checks
  of its parameters: a request without a client identifier, at time 1000, leaves in the
  store a code that expired at 600.
\<close>

theorem prune_skipped_counterexample:
  "snd (authorize_endpoint example_env ''n3w'' 1000 [(''c0de'', example_data rfc_challenge)]
          (example_query\<lparr>q_client_id := None\<rparr>)) = [(''c0de'', example_data rfc_challenge)] \<and>
   prune_expired_authorization_codes 1000 [(''c0de'', example_data rfc_challenge)] = []"
  by (simp add: authorize_endpoint_def falsy_def example_query_def error_redirect_def
      prune_expired_authorization_codes_def example_data_def)

section \<open>The polling loop\<close>

lemma session_tell [simp]:
  "attempt (tell ctx e s) = attempt s" "checks (tell ctx e s) = checks s"
  "sleeps (tell ctx e s) = sleeps s" "current_delay (tell ctx e s) = current_delay s"
  by (simp_all add: tell_def)

lemma session_report_progress [simp]:
  "attempt (report_progress ctx d s) = attempt s" "checks (report_progress ctx d s) = checks s"
  "sleeps (report_progress ctx d s) = sleeps s"
  "current_delay (report_progress ctx d s) = current_delay s"
  by (simp_all add: report_progress_def split: option.splits)

lemma poll_step_goes_on:
  assumes "clock w (Suc (attempt s)) \<le> timeout (config self)"
    and "goes_on w (Suc (attempt s))"
    and "checks s = attempt s"
  shows "\<exists>s'. poll_step self w jid ctx s = Inr s' \<and> attempt s' = Suc (attempt s) \<and>
           checks s' = Suc (attempt s) \<and>
           current_delay s' = delay_after self 1 (current_delay s) \<and>
           sleeps s' = sleeps s @ [current_delay s]"
  using assms
  by (auto simp: poll_step_def goes_on_def Let_def sleep_and_back_off_def
      calculate_next_delay_def split: check_outcome.splits)

lemma poll_loop_run:
  assumes "\<forall>k. attempt s < k \<and> k \<le> attempt s + n \<longrightarrow>
             clock w k \<le> timeout (config self) \<and> goes_on w k"
    and "checks s = attempt s"
  shows "\<exists>s'. poll_loop self w jid ctx s = poll_loop self w jid ctx s' \<and>
           attempt s' = attempt s + n \<and> checks s' = attempt s + n \<and>
           current_delay s' = delay_after self n (current_delay s) \<and>
           sleeps s' = sleeps s @ map (\<lambda>i. delay_after self i (current_delay s)) [0..<n]"
  using assms
proof (induction n)
  case 0
  then show ?case by auto
next
  case (Suc n)
  then obtain s1 where run: "poll_loop self w jid ctx s = poll_loop self w jid ctx s1"
    and s1: "attempt s1 = attempt s + n" "checks s1 = attempt s + n"
      "current_delay s1 = delay_after self n (current_delay s)"
      "sleeps s1 = sleeps s @ map (\<lambda>i. delay_after self i (current_delay s)) [0..<n]"
    by auto
  have "clock w (Suc (attempt s1)) \<le> timeout (config self)" and "goes_on w (Suc (attempt s1))"
    using Suc.prems(1) s1(1) by auto
  then obtain s2 where step: "poll_step self w jid ctx s1 = Inr s2"
    and s2: "attempt s2 = Suc (attempt s1)" "checks s2 = Suc (attempt s1)"
      "current_delay s2 = delay_after self 1 (current_delay s1)"
      "sleeps s2 = sleeps s1 @ [current_delay s1]"
    using poll_step_goes_on [of w s1 self jid ctx] s1(1,2) by auto
  have "poll_loop self w jid ctx s1 = poll_loop self w jid ctx s2"
    by (subst poll_loop.simps) (simp add: step)
  with run s1 s2 show ?case
    by (intro exI [of _ s2]) simp
qed




lemma poll_until_complete_run:
  assumes "0 < n"
    and "\<forall>k. 0 < k \<and> k < n \<longrightarrow> clock w k \<le> timeout (config self) \<and> goes_on w k"
  shows "\<exists>s1. poll_until_complete self w jid ctx told = poll_loop self w jid ctx s1 \<and>
           attempt s1 = n - 1 \<and> checks s1 = n - 1 \<and>
           sleeps s1 = map (\<lambda>i. delay_after self i (initial_delay (config self))) [0..<n - 1]"
proof -
  let ?s0 = "tell ctx (Info (JobSubmitted jid (job_type self)))
          \<lparr>attempt = 0, current_delay = initial_delay (config self), last_progress = None,
           checks = 0, sleeps = [], events = told\<rparr>"
  have "\<forall>k. attempt ?s0 < k \<and> k \<le> attempt ?s0 + (n - 1) \<longrightarrow>
          clock w k \<le> timeout (config self) \<and> goes_on w k"
    using assms by auto
  then show ?thesis
    using poll_loop_run [of ?s0 "n - 1" w self jid ctx]
    by (auto simp: poll_until_complete_def)
qed

lemma poll_loop_exit:
  assumes "poll_step self w jid ctx s = Inl r"
  shows "poll_loop self w jid ctx s = Some r"
  by (subst poll_loop.simps) (simp add: assms)

lemma poll_step_timeout:
  assumes "timeout (config self) < clock w (Suc (attempt s))"
  shows "\<exists>s'. poll_step self w jid ctx s =
           Inl (Inl (PollingTimeoutError
                  (JobTimedOut jid (clock w (Suc (attempt s))) (timeout (config self)))), s') \<and>
           checks s' = checks s \<and> attempt s' = Suc (attempt s) \<and> sleeps s' = sleeps s"
  using assms by (simp add: poll_step_def Let_def)

lemma poll_step_failed:
  assumes "clock w (Suc (attempt s)) \<le> timeout (config self)"
    and "get_job_status w (Suc (attempt s)) = Returns d" and "d_status d = FAILED"
    and "checks s = attempt s"
  shows "\<exists>s'. poll_step self w jid ctx s =
           Inl (Inr \<lparr>success = False, job_id = Some jid, status = Some FAILED,
                     result = None, result_url = None, error = Some (JobFailed jid),
                     metadata = Some \<lparr>elapsed_time = clock w (Suc (attempt s)),
                                      attempts = Suc (attempt s)\<rparr>\<rparr>, s') \<and>
           checks s' = Suc (attempt s) \<and> sleeps s' = sleeps s"
  using assms by (auto simp: poll_step_def Let_def)






lemma poll_until_complete_timeout:
  assumes "0 < n"
    and "\<forall>k. 0 < k \<and> k < n \<longrightarrow> clock w k \<le> timeout (config self) \<and> goes_on w k"
    and "timeout (config self) < clock w n"
  shows "\<exists>s. poll_until_complete self w jid ctx told =
           Some (Inl (PollingTimeoutError
                        (JobTimedOut jid (clock w n) (timeout (config self)))), s) \<and>
           checks s = n - 1"
proof -
  obtain s1 where run: "poll_until_complete self w jid ctx told = poll_loop self w jid ctx s1"
    and s1: "attempt s1 = n - 1" "checks s1 = n - 1"
    using poll_until_complete_run [OF assms(1,2)] by blast
  have n: "Suc (attempt s1) = n" using s1(1) assms(1) by simp
  obtain s2 where step: "poll_step self w jid ctx s1 =
           Inl (Inl (PollingTimeoutError
                  (JobTimedOut jid (clock w n) (timeout (config self)))), s2)"
    and s2: "checks s2 = checks s1"
    using poll_step_timeout [of self w s1 jid ctx] assms(3) n by auto
  from run poll_loop_exit [OF step] s2 s1(2) show ?thesis by simp
qed

lemma poll_with_context_timeout:
  assumes "0 < n"
    and "\<forall>k. 0 < k \<and> k < n \<longrightarrow> clock w k \<le> timeout (config self) \<and> goes_on w k"
    and "timeout (config self) < clock w n"
  shows "\<exists>s. poll_with_context self w jid ctx operation_name =
           Some (\<lparr>success = False, job_id = Some jid, status = None, result = None,
                  result_url = None,
                  error = Some (JobTimedOut jid (clock w n) (timeout (config self))),
                  metadata = None\<rparr>, s) \<and>
           checks s = n - 1"
proof -
  let ?told = "if ctx
               then [Info (OperationStarting operation_name jid (timeout (config self) / 60))]
               else []"
  obtain s where "poll_until_complete self w jid ctx ?told =
           Some (Inl (PollingTimeoutError
                        (JobTimedOut jid (clock w n) (timeout (config self)))), s)"
    and "checks s = n - 1"
    using poll_until_complete_timeout [OF assms] by blast
  then show ?thesis
    by (simp add: poll_with_context_def)
qed

lemma poll_with_context_failed:
  assumes "0 < n"
    and "\<forall>k. 0 < k \<and> k < n \<longrightarrow> clock w k \<le> timeout (config self) \<and> goes_on w k"
    and "clock w n \<le> timeout (config self)"
    and "get_job_status w n = Returns d" and "d_status d = FAILED"
  shows "\<exists>s. poll_with_context self w jid ctx operation_name =
           Some (\<lparr>success = False, job_id = Some jid, status = Some FAILED, result = None,
                  result_url = None, error = Some (JobFailed jid),
                  metadata = Some \<lparr>elapsed_time = clock w n, attempts = n\<rparr>\<rparr>, s) \<and>
           checks s = n"
proof -
  let ?told = "if ctx
               then [Info (OperationStarting operation_name jid (timeout (config self) / 60))]
               else []"
  obtain s1 where run: "poll_until_complete self w jid ctx ?told = poll_loop self w jid ctx s1"
    and s1: "attempt s1 = n - 1" "checks s1 = n - 1"
    using poll_until_complete_run [OF assms(1,2)] by blast
  have n: "Suc (attempt s1) = n" using s1(1) assms(1) by simp
  obtain s2 where step: "poll_step self w jid ctx s1 =
           Inl (Inr \<lparr>success = False, job_id = Some jid, status = Some FAILED,
                     result = None, result_url = None, error = Some (JobFailed jid),
                     metadata = Some \<lparr>elapsed_time = clock w n, attempts = n\<rparr>\<rparr>, s2)"
    and s2: "checks s2 = n"
    using poll_step_failed [of w s1 self d jid ctx] assms(3,4,5) s1 n by auto
  from run poll_loop_exit [OF step] s2 show ?thesis
    by (simp add: poll_with_context_def)
qed




lemma video_config:
  "config video_manager =
     \<lparr>initial_delay = 5, max_delay = 30, timeout = 900, backoff_factor = 3 / 2\<rparr>"
  by (simp add: video_manager_def PollingManager_init_def get_polling_config_def settings_def
      lower_def lower_char_def)












section \<open>Timeout\<close>

text \<open>
  C9 (timeout), as the code has it. In every iteration of the loop the elapsed time is
  compared with the timeout before the status check: when it exceeds the timeout the
  iteration makes no status check and leaves the loop with \<open>PollingTimeoutError\<close>. A
  session whose \<open>n\<close>-th iteration is the first to find the timeout exceeded has made
  \<open>n - 1\<close> status checks; \<open>poll_until_complete\<close> raises the timeout error, and
  \<open>poll_with_context\<close> turns it into a failure result with no status and no metadata,
  whose error text holds the job, the elapsed time and the timeout, and no attempt count.
  A job that fails upstream gives another result: status \<open>FAILED\<close>, the error text of a
  failed job, and metadata with the elapsed time and the attempt count.
\<close>

theorem timeout_checked_before_status:
  "(\<forall>s :: session. timeout (config self) < clock w (Suc (attempt s)) \<longrightarrow>
      (\<exists>s'. poll_step self w jid ctx s =
              Inl (Inl (PollingTimeoutError
                     (JobTimedOut jid (clock w (Suc (attempt s))) (timeout (config self)))), s') \<and>
            checks s' = checks s)) \<and>
   (\<forall>n. 0 < n \<and>
        (\<forall>k. 0 < k \<and> k < n \<longrightarrow> clock w k \<le> timeout (config self) \<and> goes_on w k) \<and>
        timeout (config self) < clock w n \<longrightarrow>
      (\<exists>s. poll_until_complete self w jid ctx told =
             Some (Inl (PollingTimeoutError
                          (JobTimedOut jid (clock w n) (timeout (config self)))), s) \<and>
           checks s = n - 1) \<and>
      (\<exists>s. poll_with_context self w jid ctx operation_name =
             Some (\<lparr>success = False, job_id = Some jid, status = None, result = None,
                    result_url = None,
                    error = Some (JobTimedOut jid (clock w n) (timeout (config self))),
                    metadata = None\<rparr>, s) \<and>
           checks s = n - 1)) \<and>
   (\<forall>n d. 0 < n \<and>
        (\<forall>k. 0 < k \<and> k < n \<longrightarrow> clock w k \<le> timeout (config self) \<and> goes_on w k) \<and>
        clock w n \<le> timeout (config self) \<and>
        get_job_status w n = Returns d \<and> d_status d = FAILED \<longrightarrow>
      (\<exists>s. poll_with_context self w jid ctx operation_name =
             Some (\<lparr>success = False, job_id = Some jid, status = Some FAILED, result = None,
                    result_url = None, error = Some (JobFailed jid),
                    metadata = Some \<lparr>elapsed_time = clock w n, attempts = n\<rparr>\<rparr>, s) \<and>
           checks s = n))"
proof (intro conjI allI impI)
  fix s :: session
  assume "timeout (config self) < clock w (Suc (attempt s))"
  then show "\<exists>s'. poll_step self w jid ctx s =
              Inl (Inl (PollingTimeoutError
                     (JobTimedOut jid (clock w (Suc (attempt s))) (timeout (config self)))), s') \<and>
            checks s' = checks s"
    using poll_step_timeout [of self w s jid ctx] by blast
next
  fix n
  assume h: "0 < n \<and>
        (\<forall>k. 0 < k \<and> k < n \<longrightarrow> clock w k \<le> timeout (config self) \<and> goes_on w k) \<and>
        timeout (config self) < clock w n"
  then show "\<exists>s. poll_until_complete self w jid ctx told =
             Some (Inl (PollingTimeoutError
                          (JobTimedOut jid (clock w n) (timeout (config self)))), s) \<and>
           checks s = n - 1"
    using poll_until_complete_timeout [of n w self jid ctx told] by blast
  from h show "\<exists>s. poll_with_context self w jid ctx operation_name =
             Some (\<lparr>success = False, job_id = Some jid, status = None, result = None,
                    result_url = None,
                    error = Some (JobTimedOut jid (clock w n) (timeout (config self))),
                    metadata = None\<rparr>, s) \<and>
           checks s = n - 1"
    using poll_with_context_timeout [of n w self jid ctx operation_name] by blast
next
  fix n d
  assume "0 < n \<and>
        (\<forall>k. 0 < k \<and> k < n \<longrightarrow> clock w k \<le> timeout (config self) \<and> goes_on w k) \<and>
        clock w n \<le> timeout (config self) \<and>
        get_job_status w n = Returns d \<and> d_status d = FAILED"
  then show "\<exists>s. poll_with_context self w jid ctx operation_name =
             Some (\<lparr>success = False, job_id = Some jid, status = Some FAILED, result = None,
                    result_url = None, error = Some (JobFailed jid),
                    metadata = Some \<lparr>elapsed_time = clock w n, attempts = n\<rparr>\<rparr>, s) \<and>
           checks s = n"
    using poll_with_context_failed [of n w self d jid ctx operation_name] by blast
qed

lemma never_done_run:
  "\<forall>k. 0 < k \<and> k < 2 \<longrightarrow>
      clock never_done k \<le> timeout (config video_manager) \<and> goes_on never_done k"
  "timeout (config video_manager) < clock never_done 2"
  by (simp_all add: never_done_def video_config goes_on_def processing_data_def)

lemma fails_upstream_run:
  "\<forall>k. 0 < k \<and> k < 2 \<longrightarrow>
      clock fails_upstream k \<le> timeout (config video_manager) \<and> goes_on fails_upstream k"
  "clock fails_upstream 2 \<le> timeout (config video_manager)"
  "get_job_status fails_upstream 2 = Returns failed_data" "d_status failed_data = FAILED"
  by (simp_all add: fails_upstream_def video_config goes_on_def processing_data_def
      failed_data_def)

theorem timeout_checked_before_status_witness:
  "(\<exists>s. poll_until_complete video_manager never_done ''job-1'' False [] =
          Some (Inl (PollingTimeoutError (JobTimedOut ''job-1'' 901 900)), s) \<and> checks s = 1) \<and>
   (\<exists>s. poll_with_context video_manager never_done ''job-1'' False ''video'' =
          Some (\<lparr>success = False, job_id = Some ''job-1'', status = None, result = None,
                 result_url = None, error = Some (JobTimedOut ''job-1'' 901 900),
                 metadata = None\<rparr>, s) \<and>
        checks s = 1) \<and>
   (\<exists>s. poll_with_context video_manager fails_upstream ''job-1'' False ''video'' =
          Some (\<lparr>success = False, job_id = Some ''job-1'', status = Some FAILED, result = None,
                 result_url = None, error = Some (JobFailed ''job-1''),
                 metadata = Some \<lparr>elapsed_time = 5, attempts = 2\<rparr>\<rparr>, s) \<and>
        checks s = 2)"
proof -
  note inst = timeout_checked_before_status [where self = video_manager and jid = "''job-1''"
      and ctx = False and told = "[]" and operation_name = "''video''"]
  have t: "timeout (config video_manager) = 900" by (simp add: video_config)
  have c: "clock never_done 2 = 901" "clock fails_upstream 2 = 5"
    by (simp_all add: never_done_def fails_upstream_def)
  have one: "2 - 1 = (1::nat)" by simp
  have h1: "0 < (2::nat) \<and>
        (\<forall>k. 0 < k \<and> k < 2 \<longrightarrow>
           clock never_done k \<le> timeout (config video_manager) \<and> goes_on never_done k) \<and>
        timeout (config video_manager) < clock never_done 2"
    by (intro conjI) (simp, rule never_done_run(1), rule never_done_run(2))
  have h2: "0 < (2::nat) \<and>
        (\<forall>k. 0 < k \<and> k < 2 \<longrightarrow>
           clock fails_upstream k \<le> timeout (config video_manager) \<and>
           goes_on fails_upstream k) \<and>
        clock fails_upstream 2 \<le> timeout (config video_manager) \<and>
        get_job_status fails_upstream 2 = Returns failed_data \<and> d_status failed_data = FAILED"
    by (intro conjI) (simp, rule fails_upstream_run(1), rule fails_upstream_run(2),
        rule fails_upstream_run(3), rule fails_upstream_run(4))
  note a = inst [where w = never_done, THEN conjunct2, THEN conjunct1, rule_format, OF h1,
      unfolded t c one]
  note b = inst [where w = fails_upstream, THEN conjunct2, THEN conjunct2, rule_format, OF h2,
      unfolded t c]
  from a b show ?thesis by (intro conjI) (erule conjunct1, erule conjunct2, assumption)
qed

text \<open>
  The claim as the specification states it fails on the attempt count: the result of a
  session that times out in its second iteration has no metadata, and its error text holds
  the elapsed time and the timeout only.
\<close>

theorem timeout_result_counterexample:
  "map_option fst (poll_with_context video_manager never_done ''job-1'' False ''video'') =
     Some \<lparr>success = False, job_id = Some ''job-1'', status = None, result = None,
           result_url = None, error = Some (JobTimedOut ''job-1'' 901 900), metadata = None\<rparr>"
proof -
  have t: "timeout (config video_manager) = 900" by (simp add: video_config)
  have c: "clock never_done 2 = 901" by (simp add: never_done_def)
  have pos: "0 < (2::nat)" by simp
  note r = poll_with_context_timeout [OF pos never_done_run, of "''job-1''" False "''video''",
      unfolded t c]
  then obtain s where "poll_with_context video_manager never_done ''job-1'' False ''video'' =
           Some (\<lparr>success = False, job_id = Some ''job-1'', status = None, result = None,
                  result_url = None, error = Some (JobTimedOut ''job-1'' 901 900),
                  metadata = None\<rparr>, s)"
    by (elim exE conjE)
  then show ?thesis by (simp only: option.map fst_conv)
qed

end
